theory Spec2Isabelle
  imports Main "HOL-Library.Sublist"
begin

section \<open>JavaScript strings\<close>

text \<open>
  A JavaScript string is modelled as a list of code units. \<^typ>\<open>char\<close> has 256 values, so
  the model is exact for strings whose code units are below 256 (ASCII and Latin-1) and
  says nothing about others. Buffers (byte sequences) use the same type.
\<close>

definition is_space :: "char \<Rightarrow> bool" where
  \<comment> \<open>the regular expression class \<open>\s\<close> and the characters removed by \<open>trim\<close>, below 256\<close>
  "is_space c = (c = CHR 0x09 \<or> c = CHR 0x0A \<or> c = CHR 0x0B \<or> c = CHR 0x0C \<or>
                 c = CHR 0x0D \<or> c = CHR '' '' \<or> c = CHR 0xA0)"

definition is_digit :: "char \<Rightarrow> bool" where
  \<comment> \<open>the class \<open>\d\<close>\<close>
  "is_digit c = (c \<in> set ''0123456789'')"

definition is_hex :: "char \<Rightarrow> bool" where
  "is_hex c = (c \<in> set ''0123456789abcdefABCDEF'')"

definition is_alpha :: "char \<Rightarrow> bool" where
  "is_alpha c = (c \<in> set ''abcdefghijklmnopqrstuvwxyzABCDEFGHIJKLMNOPQRSTUVWXYZ'')"

definition is_word :: "char \<Rightarrow> bool" where
  \<comment> \<open>the class \<open>\w\<close>, which decides the word boundary \<open>\b\<close>\<close>
  "is_word c = (is_alpha c \<or> is_digit c \<or> c = CHR ''_'')"

definition case_table :: "(char \<times> char) list" where
  "case_table =
     zip (''ABCDEFGHIJKLMNOPQRSTUVWXYZ'' @
          [CHR 0xC0, CHR 0xC1, CHR 0xC2, CHR 0xC3, CHR 0xC4, CHR 0xC5, CHR 0xC6, CHR 0xC7,
           CHR 0xC8, CHR 0xC9, CHR 0xCA, CHR 0xCB, CHR 0xCC, CHR 0xCD, CHR 0xCE, CHR 0xCF,
           CHR 0xD0, CHR 0xD1, CHR 0xD2, CHR 0xD3, CHR 0xD4, CHR 0xD5, CHR 0xD6,
           CHR 0xD8, CHR 0xD9, CHR 0xDA, CHR 0xDB, CHR 0xDC, CHR 0xDD, CHR 0xDE])
         (''abcdefghijklmnopqrstuvwxyz'' @
          [CHR 0xE0, CHR 0xE1, CHR 0xE2, CHR 0xE3, CHR 0xE4, CHR 0xE5, CHR 0xE6, CHR 0xE7,
           CHR 0xE8, CHR 0xE9, CHR 0xEA, CHR 0xEB, CHR 0xEC, CHR 0xED, CHR 0xEE, CHR 0xEF,
           CHR 0xF0, CHR 0xF1, CHR 0xF2, CHR 0xF3, CHR 0xF4, CHR 0xF5, CHR 0xF6,
           CHR 0xF8, CHR 0xF9, CHR 0xFA, CHR 0xFB, CHR 0xFC, CHR 0xFD, CHR 0xFE])"

definition lower :: "char \<Rightarrow> char" where
  "lower c = (case map_of case_table c of Some l \<Rightarrow> l | None \<Rightarrow> c)"

definition toLowerCase :: "string \<Rightarrow> string" where
  "toLowerCase s = map lower s"

definition trim :: "string \<Rightarrow> string" where
  "trim s = rev (dropWhile is_space (rev (dropWhile is_space s)))"

definition startsWith :: "string \<Rightarrow> string \<Rightarrow> bool" where
  \<comment> \<open>\<open>s.startsWith(p)\<close>\<close>
  "startsWith s p = prefix p s"

definition endsWith :: "string \<Rightarrow> string \<Rightarrow> bool" where
  "endsWith s p = suffix p s"

fun split_on :: "char \<Rightarrow> string \<Rightarrow> string list" where
  \<comment> \<open>\<open>s.split(c)\<close> for a separator of one character; the empty string gives one empty part\<close>
  "split_on c [] = [[]]"
| "split_on c (x # xs) =
     (if x = c then [] # split_on c xs
      else (case split_on c xs of p # ps \<Rightarrow> (x # p) # ps | [] \<Rightarrow> [[x]]))"

fun replace_first :: "string \<Rightarrow> string \<Rightarrow> string \<Rightarrow> string" where
  \<comment> \<open>\<open>s.replace(pat, rep)\<close> with a string pattern: the first occurrence only\<close>
  "replace_first pat rep [] = (if pat = [] then rep else [])"
| "replace_first pat rep (c # cs) =
     (if prefix pat (c # cs) then rep @ drop (length pat) (c # cs)
      else c # replace_first pat rep cs)"

definition digit_val :: "char \<Rightarrow> int" where
  "digit_val c = int (of_char c) - 48"

definition dec_val :: "string \<Rightarrow> int" where
  "dec_val ds = foldl (\<lambda>a c. 10 * a + digit_val c) 0 ds"

definition parseInt :: "string \<Rightarrow> int option" where
  \<comment> \<open>\<open>Number.parseInt(s, 10)\<close>: leading white space, an optional sign, then the longest
      run of decimal digits; \<open>None\<close> is NaN. The result is the integer the digits denote:
      exact up to \<open>2^53\<close>, where the source's double begins to round (and is \<open>Infinity\<close>
      from 309 digits on).\<close>
  "parseInt s =
     (let t = dropWhile is_space s;
          neg = (t \<noteq> [] \<and> hd t = CHR ''-'');
          u = (if t \<noteq> [] \<and> (hd t = CHR ''-'' \<or> hd t = CHR ''+'') then tl t else t);
          ds = takeWhile is_digit u
      in if ds = [] then None else Some (if neg then - dec_val ds else dec_val ds))"

section \<open>Query parameters\<close>

text \<open>
  A value of \<open>req.query\<close>: absent, a string, an array or a nested object (Express's
  query parser builds the last two from repeated and bracketed keys).
\<close>

datatype qval = QUndefined | QNull | QStr string | QArr "qval list" | QObj "(string \<times> qval) list"

fun join_with :: "string \<Rightarrow> string list \<Rightarrow> string" where
  "join_with sep [] = []"
| "join_with sep [x] = x"
| "join_with sep (x # y # ys) = x @ sep @ join_with sep (y # ys)"

fun qString :: "qval \<Rightarrow> string" where
  \<comment> \<open>\<open>String(value)\<close>\<close>
  "qString QUndefined = ''undefined''"
| "qString QNull = ''null''"
| "qString (QStr s) = s"
| "qString (QArr xs) =
     join_with '','' (map (\<lambda>x. if x = QUndefined \<or> x = QNull then [] else qString x) xs)"
| "qString (QObj kvs) = ''[object Object]''"

definition getQueryParam :: "qval \<Rightarrow> qval" where
  \<comment> \<open>\<open>Array.isArray(value) ? value[0] : value\<close>; index 0 of an empty array is undefined\<close>
  "getQueryParam v = (case v of QArr [] \<Rightarrow> QUndefined | QArr (x # xs) \<Rightarrow> x | _ \<Rightarrow> v)"

fun isRefreshRequested :: "qval \<Rightarrow> bool" where
  "isRefreshRequested QUndefined = False"
| "isRefreshRequested QNull = False"
| "isRefreshRequested (QArr []) = False"
| "isRefreshRequested (QArr (x # xs)) = isRefreshRequested x"
| "isRefreshRequested v =
     (let normalized = toLowerCase (trim (qString v))
      in if normalized = [] then False
         else normalized \<notin> set [''0'', ''false'', ''no''])"

fun first_element :: "qval \<Rightarrow> qval" where
  \<comment> \<open>the value reached by taking element 0 while the value is an array\<close>
  "first_element (QArr []) = QUndefined"
| "first_element (QArr (x # xs)) = first_element x"
| "first_element v = v"

section \<open>The SSRF guard\<close>

text \<open>
  \<open>net.isIP\<close> belongs to the platform. It is modelled after the two regular expressions
  of Node's \<open>lib/internal/net.js\<close>: a dotted quad of decimal numbers up to 255 without
  leading zeros; up to eight colon-separated groups of one to four hexadecimal digits,
  at most one \<open>::\<close> standing for one group or more, an optional dotted quad in place of
  the last two groups, and an optional zone after \<open>%\<close>.
\<close>

definition is_v4Seg :: "string \<Rightarrow> bool" where
  "is_v4Seg s = (s \<noteq> [] \<and> length s \<le> 3 \<and> list_all is_digit s \<and>
                 (if 1 < length s then hd s \<noteq> CHR ''0'' else True) \<and> dec_val s \<le> 255)"

definition is_v4Str :: "string \<Rightarrow> bool" where
  "is_v4Str s = (let parts = split_on (CHR ''.'') s in length parts = 4 \<and> list_all is_v4Seg parts)"

definition is_v6Seg :: "string \<Rightarrow> bool" where
  "is_v6Seg s = (s \<noteq> [] \<and> length s \<le> 4 \<and> list_all is_hex s)"

fun split_dcolon :: "string \<Rightarrow> (string \<times> string) option" where
  \<comment> \<open>the text before and after the first \<open>::\<close>\<close>
  "split_dcolon (a # b # cs) =
     (if a = CHR '':'' \<and> b = CHR '':'' then Some ([], cs)
      else map_option (\<lambda>(l, r). (a # l, r)) (split_dcolon (b # cs)))"
| "split_dcolon cs = None"

definition v6_groups :: "string \<Rightarrow> string list" where
  "v6_groups s = (if s = [] then [] else split_on (CHR '':'') s)"

definition v6_tail_ok :: "string list \<Rightarrow> bool" where
  \<comment> \<open>groups, the last of which may be a dotted quad\<close>
  "v6_tail_ok gs =
     (if list_all is_v6Seg gs then True
      else if gs = [] then False
      else list_all is_v6Seg (butlast gs) \<and> is_v4Str (last gs))"

definition v6_slots :: "string list \<Rightarrow> nat" where
  \<comment> \<open>the number of 16-bit groups the text stands for: a dotted quad counts twice\<close>
  "v6_slots gs = (if gs \<noteq> [] \<and> is_v4Str (last gs) then length gs + 1 else length gs)"

definition is_zone_char :: "char \<Rightarrow> bool" where
  "is_zone_char c = (is_digit c \<or> is_alpha c \<or> c = CHR ''-'' \<or> c = CHR ''.'' \<or> c = CHR '':'')"

definition is_v6Str :: "string \<Rightarrow> bool" where
  "is_v6Str s =
     (let body = takeWhile (\<lambda>c. c \<noteq> CHR ''%'') s;
          rest = dropWhile (\<lambda>c. c \<noteq> CHR ''%'') s;
          zone_ok = (if rest = [] then True else tl rest \<noteq> [] \<and> list_all is_zone_char (tl rest))
      in zone_ok \<and>
         (case split_dcolon body of
            None \<Rightarrow> v6_tail_ok (v6_groups body) \<and> v6_slots (v6_groups body) = 8
          | Some (l, r) \<Rightarrow>
              list_all is_v6Seg (v6_groups l) \<and> v6_tail_ok (v6_groups r) \<and>
              length (v6_groups l) + v6_slots (v6_groups r) \<le> 7))"

definition net_isIP :: "string \<Rightarrow> nat" where
  "net_isIP s = (if is_v4Str s then 4 else if is_v6Str s then 6 else 0)"

function isPrivateIp :: "string \<Rightarrow> bool" where
  "isPrivateIp ip =
     (if net_isIP ip = 4 then
        (let parts = map parseInt (split_on (CHR ''.'') ip);
             a = (if 0 < length parts then parts ! 0 else None);
             b = (if 1 < length parts then parts ! 1 else None)
         in if a = Some 10 then True
            else if a = Some 127 then True
            else if a = Some 0 then True
            else if a = Some 169 \<and> b = Some 254 then True
            else if a = Some 172 \<and> (case b of Some n \<Rightarrow> 16 \<le> n \<and> n \<le> 31 | None \<Rightarrow> False) then True
            else if a = Some 192 \<and> b = Some 168 then True
            else if a = Some 100 \<and> (case b of Some n \<Rightarrow> 64 \<le> n \<and> n \<le> 127 | None \<Rightarrow> False) then True
            else False)
      else if net_isIP ip = 6 then
        (let normalized = toLowerCase ip
         in if normalized = ''::1'' then True
            else if startsWith normalized ''fe80:'' then True
            else if startsWith normalized ''fc'' \<or> startsWith normalized ''fd'' then True
            else if startsWith normalized ''::ffff:'' then
              (let mapped = replace_first ''::ffff:'' [] normalized
               in if net_isIP mapped = 4 then isPrivateIp mapped else False)
            else False)
      else False)"
  by pat_completeness auto
termination
  by (relation "measure (\<lambda>ip. if net_isIP ip = 4 then 0 else 1)") auto

declare isPrivateIp.simps [simp del]

datatype fetch_error =
    InvalidUrl            \<comment> \<open>the address is not a URL, or has no host name\<close>
  | UnsupportedScheme     \<comment> \<open>neither http nor https\<close>
  | LocalHost             \<comment> \<open>localhost or a name under it\<close>
  | PrivateAddress        \<comment> \<open>a private or reserved address\<close>
  | DnsFailure            \<comment> \<open>the lookup gave no address\<close>
  | TooManyRedirects
  | HttpStatus int        \<comment> \<open>a status other than 200\<close>
  | TooLarge              \<comment> \<open>the body passed the byte cap\<close>
  | DecodeFailure         \<comment> \<open>the compressed body did not decode\<close>
  | RequestError string   \<comment> \<open>an error of the request or of the lookup, with its message\<close>
  | RequestFailed         \<comment> \<open>an error without a message\<close>
  | Uncaught              \<comment> \<open>an exception thrown inside the response callback\<close>

record parsed_url =
  protocol :: string
  hostname :: string
  href :: string

definition ensurePublicUrl :: "parsed_url \<Rightarrow> fetch_error + unit" where
  "ensurePublicUrl parsedUrl =
     (if hostname parsedUrl = [] then Inl InvalidUrl
      else if protocol parsedUrl \<notin> set [''http:'', ''https:''] then Inl UnsupportedScheme
      else let host = toLowerCase (hostname parsedUrl)
           in if host = ''localhost'' \<or> endsWith host ''.localhost'' then Inl LocalHost
              else if net_isIP host \<noteq> 0 then
                (if isPrivateIp host then Inl PrivateAddress else Inr ())
              else Inr ())"

record lookup_address =
  address :: string
  family :: nat

text \<open>
  \<open>dns.lookup(hostname, {all: true, verbatim: true})\<close> is the resolver's answer, a
  parameter here: \<open>Inl msg\<close> when the lookup rejects, \<open>Inr None\<close> for an answer that is
  not a list, \<open>Inr (Some addresses)\<close> for the list of records in the resolver's order.
\<close>

type_synonym dns = "string \<Rightarrow> string + lookup_address list option"

definition js_find :: "('a \<Rightarrow> bool) \<Rightarrow> 'a list \<Rightarrow> 'a option" where
  \<comment> \<open>\<open>Array.prototype.find\<close>\<close>
  "js_find p xs = (case filter p xs of [] \<Rightarrow> None | x # _ \<Rightarrow> Some x)"

definition error_of_message :: "string \<Rightarrow> fetch_error" where
  \<comment> \<open>the request's error handler: the error's own message, or a fixed one when it has none\<close>
  "error_of_message msg = (if msg \<noteq> [] then RequestError msg else RequestFailed)"

definition resolvePublicAddress :: "dns \<Rightarrow> string \<Rightarrow> fetch_error + lookup_address" where
  "resolvePublicAddress lookup host =
     (case lookup host of
        Inl msg \<Rightarrow> Inl (RequestError msg)
      | Inr None \<Rightarrow> Inl DnsFailure
      | Inr (Some addresses) \<Rightarrow>
          if length addresses = 0 then Inl DnsFailure
          else (case js_find (\<lambda>record. \<not> isPrivateIp (address record)) addresses of
                  None \<Rightarrow> Inl PrivateAddress
                | Some publicAddress \<Rightarrow> Inr publicAddress))"

section \<open>The fetcher\<close>

definition MAX_REDIRECTS :: nat where
  "MAX_REDIRECTS = 3"

definition MAX_RSS_BYTES :: nat where
  "MAX_RSS_BYTES = 5 * 1024 * 1024"

text \<open>
  A response as the callback of \<open>http.get\<close> sees it: the status, the two headers the code
  reads, the chunks of the body in the order of the \<open>data\<close> events, and how the stream
  stops: with the \<open>end\<close> event (\<open>None\<close>), or with an \<open>error\<close> event of the request that
  carries a message (a broken connection, or the 10 second timer).
\<close>

record response =
  statusCode :: int
  location :: "string option"
  content_encoding :: "string option"
  body :: "string list"
  failure :: "string option"

text \<open>
  Everything outside the process is a parameter: the URL parser, the resolver, the
  server's answer to a GET sent to a pinned address, the three decompressors of \<open>zlib\<close>
  (\<open>None\<close> when they report an error) and the decoding of a buffer as UTF-8.
\<close>

record world =
  new_URL :: "string \<Rightarrow> parsed_url option"
  new_URL_base :: "string \<Rightarrow> parsed_url \<Rightarrow> parsed_url option"
  dns_lookup :: dns
  http_get :: "parsed_url \<Rightarrow> lookup_address option \<Rightarrow> string + response"
  gunzip :: "string \<Rightarrow> string option"
  inflate :: "string \<Rightarrow> string option"
  brotliDecompress :: "string \<Rightarrow> string option"
  toString_utf8 :: "string \<Rightarrow> string"

text \<open>
  The state of the two stream handlers: the chunks kept, the byte counter, whether the
  response was destroyed, and the promise (\<open>None\<close> while pending; settling a settled
  promise changes nothing).
\<close>

record receiver =
  chunks :: "string list"
  totalBytes :: nat
  destroyed :: bool
  promise :: "(fetch_error + string) option"

definition settle :: "fetch_error + string \<Rightarrow> receiver \<Rightarrow> receiver" where
  "settle r st = (case promise st of None \<Rightarrow> st\<lparr>promise := Some r\<rparr> | Some _ \<Rightarrow> st)"

definition receiver0 :: receiver where
  "receiver0 = \<lparr>chunks = [], totalBytes = 0, destroyed = False, promise = None\<rparr>"

definition onData :: "receiver \<Rightarrow> string \<Rightarrow> receiver" where
  "onData st chunk =
     (let st1 = st\<lparr>totalBytes := totalBytes st + length chunk\<rparr>
      in if totalBytes st1 > MAX_RSS_BYTES
         then settle (Inl TooLarge) (st1\<lparr>destroyed := True\<rparr>)
         else st1\<lparr>chunks := chunks st1 @ [chunk]\<rparr>)"

definition finish :: "world \<Rightarrow> string option \<Rightarrow> receiver \<Rightarrow> receiver" where
  "finish w decoded st =
     (case decoded of
        None \<Rightarrow> settle (Inl DecodeFailure) st
      | Some buffer \<Rightarrow> settle (Inr (toString_utf8 w buffer)) st)"

definition onEnd :: "world \<Rightarrow> string option \<Rightarrow> receiver \<Rightarrow> receiver" where
  "onEnd w encoding st =
     (if totalBytes st > MAX_RSS_BYTES then st
      else let buffer = concat (chunks st)
           in if encoding = Some ''gzip'' then finish w (gunzip w buffer) st
              else if encoding = Some ''deflate'' then finish w (inflate w buffer) st
              else if encoding = Some ''br'' then finish w (brotliDecompress w buffer) st
              else settle (Inr (toString_utf8 w buffer)) st)"

definition error_event :: "string \<Rightarrow> receiver \<Rightarrow> receiver" where
  "error_event msg st = settle (Inl (error_of_message msg)) st"

fun deliver :: "world \<Rightarrow> response \<Rightarrow> receiver \<Rightarrow> string list \<Rightarrow> receiver \<times> string list" where
  \<comment> \<open>the events of one response, in order; a destroyed response emits nothing more.
      The second component is the part of the body that was never delivered.\<close>
  "deliver w res st [] =
     (case failure res of
        None \<Rightarrow> (onEnd w (content_encoding res) st, [])
      | Some msg \<Rightarrow> (error_event msg st, []))"
| "deliver w res st (chunk # rest) =
     (let st' = onData st chunk
      in if destroyed st' then (st', rest) else deliver w res st' rest)"

definition settled :: "receiver \<Rightarrow> fetch_error + string" where
  \<comment> \<open>what the promise was settled with; after \<open>deliver\<close> it is never pending\<close>
  "settled st = (case promise st of Some r \<Rightarrow> r | None \<Rightarrow> Inl RequestFailed)"

definition receiveBody :: "world \<Rightarrow> response \<Rightarrow> fetch_error + string" where
  "receiveBody w res = settled (fst (deliver w res receiver0 (body res)))"

definition redirect_target :: "world \<Rightarrow> parsed_url \<Rightarrow> string \<Rightarrow> string option" where
  \<comment> \<open>\<open>location.startsWith("http") ? location : new URL(location, parsedUrl).href\<close>\<close>
  "redirect_target w parsedUrl loc =
     (if startsWith loc ''http'' then Some loc
      else map_option href (new_URL_base w loc parsedUrl))"

definition send_request :: "world \<Rightarrow> string \<Rightarrow> fetch_error + parsed_url \<times> response" where
  \<comment> \<open>\<open>fetchRss\<close> up to the response callback: the URL is parsed and checked, a host name
      is resolved to a public address, and the GET goes to that address\<close>
  "send_request w targetUrl =
     (case new_URL w targetUrl of
        None \<Rightarrow> Inl InvalidUrl
      | Some parsedUrl \<Rightarrow>
          (case ensurePublicUrl parsedUrl of
             Inl e \<Rightarrow> Inl e
           | Inr _ \<Rightarrow>
               (let host = toLowerCase (hostname parsedUrl);
                    resolved = (if net_isIP host = 0
                                then map_sum id Some (resolvePublicAddress (dns_lookup w) host)
                                else Inr None)
                in case resolved of
                     Inl e \<Rightarrow> Inl e
                   | Inr pin \<Rightarrow>
                       (let lookup = map_option
                              (\<lambda>r. \<lparr>address = address r, family = net_isIP (address r)\<rparr>) pin
                        in case http_get w parsedUrl lookup of
                             Inl msg \<Rightarrow> Inl (error_of_message msg)
                           | Inr res \<Rightarrow> Inr (parsedUrl, res)))))"

definition is_redirect :: "response \<Rightarrow> bool" where
  \<comment> \<open>\<open>statusCode >= 300 && statusCode < 400 && headers.location\<close>\<close>
  "is_redirect res =
     (300 \<le> statusCode res \<and> statusCode res < 400 \<and>
      (case location res of None \<Rightarrow> False | Some loc \<Rightarrow> loc \<noteq> []))"

function fetchRss :: "world \<Rightarrow> string \<Rightarrow> nat \<Rightarrow> fetch_error + string" where
  "fetchRss w targetUrl redirectCount =
     (case send_request w targetUrl of
        Inl e \<Rightarrow> Inl e
      | Inr (parsedUrl, res) \<Rightarrow>
          if is_redirect res then
            (if redirectCount \<ge> MAX_REDIRECTS then Inl TooManyRedirects
             else (case redirect_target w parsedUrl (the (location res)) of
                     None \<Rightarrow> Inl Uncaught
                   | Some nextUrl \<Rightarrow> fetchRss w nextUrl (redirectCount + 1)))
          else if statusCode res \<noteq> 200 then Inl (HttpStatus (statusCode res))
          else receiveBody w res)"
  by pat_completeness auto
termination
  by (relation "measure (\<lambda>(w, targetUrl, redirectCount). MAX_REDIRECTS - redirectCount)") auto

declare fetchRss.simps [simp del]

text \<open>
  Three notions to state what the fetcher does: the text a complete body decodes to,
  by the content encoding; whether the answer to a request is a redirect; and the URL
  the redirect leads to.
\<close>

definition decode_body :: "world \<Rightarrow> string option \<Rightarrow> string \<Rightarrow> fetch_error + string" where
  "decode_body w encoding buffer =
     (let decoded =
            (if encoding = Some ''gzip'' then gunzip w buffer
             else if encoding = Some ''deflate'' then inflate w buffer
             else if encoding = Some ''br'' then brotliDecompress w buffer
             else Some buffer)
      in case decoded of None \<Rightarrow> Inl DecodeFailure | Some text \<Rightarrow> Inr (toString_utf8 w text))"

definition answers_redirect :: "world \<Rightarrow> string \<Rightarrow> bool" where
  "answers_redirect w url =
     (case send_request w url of Inl e \<Rightarrow> False | Inr (parsedUrl, res) \<Rightarrow> is_redirect res)"

definition redirect_of :: "world \<Rightarrow> string \<Rightarrow> string option" where
  "redirect_of w url =
     (case send_request w url of
        Inl e \<Rightarrow> None
      | Inr (parsedUrl, res) \<Rightarrow>
          if is_redirect res then redirect_target w parsedUrl (the (location res)) else None)"

section \<open>Regular expressions\<close>

text \<open>
  Each regular expression of the source is a matcher: a function giving the length of
  the match that starts at the head of its argument, \<open>0\<close> when there is none (no
  expression of the source matches the empty string). A global \<open>replace\<close> scans from
  the left, rewrites a match and goes on behind it.
\<close>

fun replace_from :: "(string \<Rightarrow> nat) \<Rightarrow> (string \<Rightarrow> string) \<Rightarrow> nat \<Rightarrow> string \<Rightarrow> string" where
  "replace_from m f k [] = []"
| "replace_from m f (Suc k) (c # cs) = replace_from m f k cs"
| "replace_from m f 0 (c # cs) =
     (case m (c # cs) of
        0 \<Rightarrow> c # replace_from m f 0 cs
      | Suc n \<Rightarrow> f (take (Suc n) (c # cs)) @ replace_from m f n cs)"

definition replace_all :: "(string \<Rightarrow> nat) \<Rightarrow> (string \<Rightarrow> string) \<Rightarrow> string \<Rightarrow> string" where
  \<comment> \<open>\<open>s.replace(/.../g, f)\<close>\<close>
  "replace_all m f s = replace_from m f 0 s"

fun find_at :: "(char option \<Rightarrow> string \<Rightarrow> bool) \<Rightarrow> char option \<Rightarrow> string \<Rightarrow> bool" where
  \<comment> \<open>\<open>/.../.test(s)\<close> for an expression without anchor: some position matches. The
      predicate sees the character before the position, for the word boundary.\<close>
  "find_at p prev [] = p prev []"
| "find_at p prev (c # cs) = (if p prev (c # cs) then True else find_at p (Some c) cs)"

definition boundary_before :: "char option \<Rightarrow> bool" where
  \<comment> \<open>\<open>\b\<close> in front of a word character\<close>
  "boundary_before prev = (case prev of None \<Rightarrow> True | Some c \<Rightarrow> \<not> is_word c)"

definition boundary_after :: "string \<Rightarrow> bool" where
  \<comment> \<open>\<open>\b\<close> behind a word character\<close>
  "boundary_after s = (case s of [] \<Rightarrow> True | c # _ \<Rightarrow> \<not> is_word c)"

definition m_br :: "string \<Rightarrow> nat" where
  \<comment> \<open>\<open><(br|BR)\s*\/?>\<close>\<close>
  "m_br s =
     (if prefix ''<br'' s \<or> prefix ''<BR'' s then
        (let ws = takeWhile is_space (drop 3 s);
             r = dropWhile is_space (drop 3 s);
             slash = (if prefix ''/'' r then 1 else 0)
         in if prefix ''>'' (drop slash r) then 3 + length ws + slash + 1 else 0)
      else 0)"

definition m_block_close :: "string \<Rightarrow> nat" where
  \<comment> \<open>\<open><\/(p|div|li|h[1-6])>\<close> with the flag \<open>i\<close>\<close>
  "m_block_close s =
     (if prefix ''</'' s then
        (let r = toLowerCase (take 4 (drop 2 s))
         in if prefix ''p>'' r then 4
            else if prefix ''div>'' r then 6
            else if prefix ''li>'' r then 5
            else if list_ex (\<lambda>d. prefix (CHR ''h'' # d # ''>'') r) ''123456'' then 5
            else 0)
      else 0)"

definition m_any_tag :: "string \<Rightarrow> nat" where
  \<comment> \<open>\<open><[^>]*>\<close>\<close>
  "m_any_tag s =
     (case s of
        [] \<Rightarrow> 0
      | c # r \<Rightarrow> if c = CHR ''<'' \<and> CHR ''>'' \<in> set r
                then length (takeWhile (\<lambda>x. x \<noteq> CHR ''>'') r) + 2 else 0)"

definition m_tag :: "string \<Rightarrow> nat" where
  \<comment> \<open>\<open><[^>]+>\<close>\<close>
  "m_tag s =
     (case s of
        [] \<Rightarrow> 0
      | c # r \<Rightarrow> if c = CHR ''<'' \<and> CHR ''>'' \<in> set r \<and> takeWhile (\<lambda>x. x \<noteq> CHR ''>'') r \<noteq> []
                then length (takeWhile (\<lambda>x. x \<noteq> CHR ''>'') r) + 2 else 0)"

definition m_cr :: "string \<Rightarrow> nat" where
  \<comment> \<open>\<open>\r\n?\<close>\<close>
  "m_cr s = (if prefix [CHR 0x0D, CHR 0x0A] s then 2 else if prefix [CHR 0x0D] s then 1 else 0)"

definition is_blank :: "char \<Rightarrow> bool" where
  \<comment> \<open>the class \<open>[ \t]\<close>\<close>
  "is_blank c = (c = CHR '' '' \<or> c = CHR 0x09)"

definition m_trailing_blanks :: "string \<Rightarrow> nat" where
  \<comment> \<open>\<open>[ \t]+\n\<close>\<close>
  "m_trailing_blanks s =
     (let bs = takeWhile is_blank s
      in if bs \<noteq> [] \<and> prefix [CHR 0x0A] (dropWhile is_blank s) then length bs + 1 else 0)"

definition m_newlines3 :: "string \<Rightarrow> nat" where
  \<comment> \<open>\<open>\n{3,}\<close>\<close>
  "m_newlines3 s =
     (let n = length (takeWhile (\<lambda>c. c = CHR 0x0A) s) in if 3 \<le> n then n else 0)"

fun m_seconds :: "string \<Rightarrow> nat" where
  \<comment> \<open>\<open>(?::\d{2})?\<close>\<close>
  "m_seconds (c # d1 # d2 # rest) = (if c = CHR '':'' \<and> is_digit d1 \<and> is_digit d2 then 3 else 0)"
| "m_seconds s = 0"

fun m_minutes :: "string \<Rightarrow> nat" where
  \<comment> \<open>\<open>:\d{2}(?::\d{2})?\<close>\<close>
  "m_minutes (c # d1 # d2 # rest) =
     (if c = CHR '':'' \<and> is_digit d1 \<and> is_digit d2 then 3 + m_seconds rest else 0)"
| "m_minutes s = 0"

fun m_timestamp :: "string \<Rightarrow> nat" where
  \<comment> \<open>\<open>\d{1,2}:\d{2}(?::\d{2})?\<close>: two leading digits when the second character is a
      digit (one digit would then have to be followed by the colon), else one\<close>
  "m_timestamp [] = 0"
| "m_timestamp [h] = 0"
| "m_timestamp (h1 # h2 # rest) =
     (if \<not> is_digit h1 then 0
      else if is_digit h2 then (if m_minutes rest = 0 then 0 else 2 + m_minutes rest)
      else (if m_minutes (h2 # rest) = 0 then 0 else 1 + m_minutes (h2 # rest)))"

section \<open>Values of the parsed feed\<close>

text \<open>
  What the XML parser builds and what the handlers pass to \<open>res.json\<close>. Numbers are
  integers here, exact below \<open>2^53\<close>; the parser also produces fractions, which are
  left out. \<open>JFunction\<close> is a built-in method: reading \<open>link\<close> from a string gives
  \<open>String.prototype.link\<close>, the one method the keys of the source can reach.
\<close>

datatype jsval =
    JUndefined | JNull | JBool bool | JNum int | JStr string
  | JArr "jsval list" | JObj "(string \<times> jsval) list" | JFunction

fun truthy :: "jsval \<Rightarrow> bool" where
  "truthy JUndefined = False"
| "truthy JNull = False"
| "truthy (JBool b) = b"
| "truthy (JNum n) = (n \<noteq> 0)"
| "truthy (JStr s) = (s \<noteq> [])"
| "truthy (JArr xs) = True"
| "truthy (JObj kvs) = True"
| "truthy JFunction = True"

definition js_or :: "jsval \<Rightarrow> jsval \<Rightarrow> jsval" where
  \<comment> \<open>\<open>a || b\<close>\<close>
  "js_or a b = (if truthy a then a else b)"

definition get :: "jsval \<Rightarrow> string \<Rightarrow> jsval" where
  \<comment> \<open>\<open>value?.[key]\<close> for the keys the source reads: a member of an object; on a string
      the method \<open>link\<close>; undefined on everything else\<close>
  "get v key =
     (case v of
        JObj kvs \<Rightarrow> (case map_of kvs key of Some x \<Rightarrow> x | None \<Rightarrow> JUndefined)
      | JStr s \<Rightarrow> if key = ''link'' then JFunction else JUndefined
      | _ \<Rightarrow> JUndefined)"

function digits_of :: "nat \<Rightarrow> string" where
  "digits_of n = (if n < 10 then [''0123456789'' ! n] else digits_of (n div 10) @ [''0123456789'' ! (n mod 10)])"
  by pat_completeness auto
termination
  by (relation "measure id") auto

declare digits_of.simps [simp del]

definition show_int :: "int \<Rightarrow> string" where
  "show_int i = (if i < 0 then CHR ''-'' # digits_of (nat (- i)) else digits_of (nat i))"

fun jsString :: "jsval \<Rightarrow> string" where
  \<comment> \<open>\<open>String(value)\<close>, also what a template literal inserts\<close>
  "jsString JUndefined = ''undefined''"
| "jsString JNull = ''null''"
| "jsString (JBool b) = (if b then ''true'' else ''false'')"
| "jsString (JNum n) = show_int n"
| "jsString (JStr s) = s"
| "jsString (JArr xs) =
     join_with '','' (map (\<lambda>x. if x = JUndefined \<or> x = JNull then [] else jsString x) xs)"
| "jsString (JObj kvs) = ''[object Object]''"
| "jsString JFunction = ''function link() { [native code] }''"

definition ensureArray :: "jsval \<Rightarrow> jsval list" where
  "ensureArray v = (if \<not> truthy v then [] else case v of JArr xs \<Rightarrow> xs | _ \<Rightarrow> [v])"

section \<open>Text of a description\<close>

text \<open>
  The libraries behind the extraction are parameters: \<open>he.decode\<close>, the timestamp of
  \<open>new Date(value)\<close> (\<open>None\<close> for NaN), the SHA-256 digest in hexadecimal of
  \<open>crypto\<close>. So are the builders of the HTML description that no statement below looks
  into: \<open>toRichHtml\<close> (decoding, \<open>sanitize-html\<close>, removal of empty elements),
  \<open>convertHtmlToPlainText\<close>, \<open>addReadableSpacing\<close> and \<open>buildHtmlFromPlainText\<close> with
  \<open>escapeHtml\<close>.
\<close>

record libs =
  he_decode :: "string \<Rightarrow> string"
  date_getTime :: "jsval \<Rightarrow> int option"
  sha256_hex :: "string \<Rightarrow> string"
  toRichHtml :: "jsval \<Rightarrow> string"
  convertHtmlToPlainText :: "jsval \<Rightarrow> string"
  addReadableSpacing :: "string \<Rightarrow> string"
  buildHtmlFromPlainText :: "string \<Rightarrow> string"

definition decodeHtml :: "(string \<Rightarrow> string) \<Rightarrow> jsval \<Rightarrow> string" where
  \<comment> \<open>the first argument is \<open>he.decode\<close>\<close>
  "decodeHtml decode v = (case v of JStr s \<Rightarrow> if s = [] then [] else decode s | _ \<Rightarrow> [])"

definition toText :: "(string \<Rightarrow> string) \<Rightarrow> jsval \<Rightarrow> string" where
  "toText decode v =
     (let decoded = decodeHtml decode v
      in if decoded = [] then []
         else trim
               (replace_all m_newlines3 (\<lambda>_. [CHR 0x0A, CHR 0x0A])
               (replace_all m_trailing_blanks (\<lambda>_. [CHR 0x0A])
               (replace_all m_cr (\<lambda>_. [CHR 0x0A])
               (replace_all m_any_tag (\<lambda>_. [])
               (replace_all m_block_close (\<lambda>_. [CHR 0x0A])
               (replace_all m_br (\<lambda>_. [CHR 0x0A]) decoded)))))))"

section \<open>Timestamps in HTML\<close>

abbreviation DQ :: string where
  "DQ \<equiv> [CHR 0x22]"

definition timestamp_button :: "string \<Rightarrow> string" where
  "timestamp_button t =
     ''<button class='' @ DQ @ ''timestamp'' @ DQ @ '' type='' @ DQ @ ''button'' @ DQ @
     '' data-timestamp='' @ DQ @ t @ DQ @ ''>'' @ t @ ''</button>''"

definition wrap_timestamp :: "string \<Rightarrow> string" where
  \<comment> \<open>the callback of the replacement in \<open>highlightTimestampsInHtml\<close>\<close>
  "wrap_timestamp match =
     (let trimmed = trim match in if trimmed = [] then match else timestamp_button trimmed)"

fun split_from :: "nat \<Rightarrow> string \<Rightarrow> string \<Rightarrow> string list" where
  "split_from k acc [] = [acc]"
| "split_from (Suc k) acc (c # cs) = split_from k acc cs"
| "split_from 0 acc (c # cs) =
     (case m_tag (c # cs) of
        0 \<Rightarrow> split_from 0 (acc @ [c]) cs
      | Suc n \<Rightarrow> acc # take (Suc n) (c # cs) # split_from n [] cs)"

definition split_tags :: "string \<Rightarrow> string list" where
  \<comment> \<open>\<open>s.split(/(<[^>]+>)/g)\<close>: the text before each tag, the tag, and the text behind
      the last tag; a text may be empty\<close>
  "split_tags s = split_from 0 [] s"

definition is_name_char :: "char \<Rightarrow> bool" where
  \<comment> \<open>the class \<open>[a-z0-9:-]\<close> with the flag \<open>i\<close>\<close>
  "is_name_char c = (is_alpha c \<or> is_digit c \<or> c = CHR '':'' \<or> c = CHR ''-'')"

definition closingMatch :: "string \<Rightarrow> bool" where
  \<comment> \<open>\<open>^<\s*\/\s*([a-z0-9:-]+)\<close> with the flag \<open>i\<close>\<close>
  "closingMatch s =
     (case s of
        [] \<Rightarrow> False
      | c # r \<Rightarrow>
          c = CHR ''<'' \<and>
          (case dropWhile is_space r of
             [] \<Rightarrow> False
           | sl # r2 \<Rightarrow>
               sl = CHR ''/'' \<and>
               (case dropWhile is_space r2 of [] \<Rightarrow> False | n # _ \<Rightarrow> is_name_char n)))"

definition isSelfClosing :: "string \<Rightarrow> bool" where
  \<comment> \<open>\<open>/\/\s*>$/.test(tag) || /^<\s*(br|hr)\b/i.test(tag)\<close>\<close>
  "isSelfClosing tag =
     ((case rev tag of
         [] \<Rightarrow> False
       | g # r \<Rightarrow> g = CHR ''>'' \<and> (case dropWhile is_space r of [] \<Rightarrow> False | sl # _ \<Rightarrow> sl = CHR ''/''))
      \<or>
      (case tag of
         [] \<Rightarrow> False
       | c # r \<Rightarrow>
           c = CHR ''<'' \<and>
           (let r1 = dropWhile is_space r; name = toLowerCase (take 2 r1)
            in (name = ''br'' \<or> name = ''hr'') \<and> boundary_after (drop 2 r1))))"

definition is_quote :: "char \<Rightarrow> bool" where
  "is_quote c = (c = CHR 0x22 \<or> c = CHR 0x27)"

definition timestamp_word :: "char option \<Rightarrow> string \<Rightarrow> bool" where
  \<comment> \<open>\<open>\btimestamp\b\<close> at the head, with the flag \<open>i\<close>\<close>
  "timestamp_word prev s =
     (boundary_before prev \<and> toLowerCase (take 9 s) = ''timestamp'' \<and> boundary_after (drop 9 s))"

definition class_attr :: "char option \<Rightarrow> string \<Rightarrow> bool" where
  \<comment> \<open>\<open>\bclass\s*=\s*["'][^"']*\btimestamp\b[^"']*["']\<close> at the head, with the flag \<open>i\<close>:
      the value runs to the next quote of either kind\<close>
  "class_attr prev s =
     (boundary_before prev \<and> toLowerCase (take 5 s) = ''class'' \<and>
      (case dropWhile is_space (drop 5 s) of
         [] \<Rightarrow> False
       | e # r \<Rightarrow>
           e = CHR ''='' \<and>
           (case dropWhile is_space r of
              [] \<Rightarrow> False
            | q # v \<Rightarrow>
                is_quote q \<and>
                dropWhile (\<lambda>c. \<not> is_quote c) v \<noteq> [] \<and>
                find_at timestamp_word (Some q) (takeWhile (\<lambda>c. \<not> is_quote c) v))))"

definition data_attr :: "char option \<Rightarrow> string \<Rightarrow> bool" where
  \<comment> \<open>\<open>\bdata-timestamp\s*=\<close> at the head, with the flag \<open>i\<close>\<close>
  "data_attr prev s =
     (boundary_before prev \<and> toLowerCase (take 14 s) = ''data-timestamp'' \<and>
      prefix ''='' (dropWhile is_space (drop 14 s)))"

definition isTimestampTag :: "string \<Rightarrow> bool" where
  "isTimestampTag tag = (find_at class_attr None tag \<or> find_at data_attr None tag)"

text \<open>
  The callback of \<open>parts.map\<close> with the two variables it updates: the stack of open tags
  (its top first; each entry says whether the tag is a timestamp marker) and
  \<open>timestampDepth\<close>.
\<close>

type_synonym scan_state = "bool list \<times> nat"

definition step :: "scan_state \<Rightarrow> string \<Rightarrow> scan_state \<times> string" where
  "step st segment =
     (let stack = fst st; timestampDepth = snd st
      in if segment = [] then (st, [])
         else if startsWith segment ''<'' then
           (if closingMatch segment then
              (case stack of
                 [] \<Rightarrow> (st, segment)
               | popped # rest \<Rightarrow> ((rest, if popped then timestampDepth - 1 else timestampDepth), segment))
            else if isSelfClosing segment then (st, segment)
            else (let isTimestamp = isTimestampTag segment
                  in ((isTimestamp # stack,
                       if isTimestamp then timestampDepth + 1 else timestampDepth), segment)))
         else if timestampDepth > 0 then (st, segment)
         else (st, replace_all m_timestamp wrap_timestamp segment))"

fun scan :: "scan_state \<Rightarrow> string list \<Rightarrow> string list" where
  "scan st [] = []"
| "scan st (segment # parts) = snd (step st segment) # scan (fst (step st segment)) parts"

definition highlightTimestampsInHtml :: "string \<Rightarrow> string" where
  "highlightTimestampsInHtml html =
     (if html = [] then [] else concat (scan ([], 0) (split_tags html)))"

definition buildEpisodeDescriptionHtml :: "libs \<Rightarrow> string \<Rightarrow> string \<Rightarrow> string" where
  "buildEpisodeDescriptionHtml l html fallbackText =
     (let sanitizedHtml = trim html
      in if sanitizedHtml \<noteq> [] then
           ''<div class='' @ DQ @ ''episode-detail-description'' @ DQ @ ''>'' @
           highlightTimestampsInHtml sanitizedHtml @ ''</div>''
         else let safeFallback = trim fallbackText
              in if safeFallback = [] then [] else buildHtmlFromPlainText l safeFallback)"

section \<open>Extraction\<close>

definition is_string :: "jsval \<Rightarrow> bool" where
  \<comment> \<open>\<open>typeof value === "string"\<close>\<close>
  "is_string v = (case v of JStr _ \<Rightarrow> True | _ \<Rightarrow> False)"

fun toLink :: "(string \<Rightarrow> string) \<Rightarrow> jsval \<Rightarrow> string" where
  "toLink d (JStr s) = (if s = [] then [] else trim (decodeHtml d (JStr s)))"
| "toLink d (JArr []) = []"
| "toLink d (JArr (x # xs)) = toLink d x"
| "toLink d (JObj kvs) =
     (if is_string (get (JObj kvs) ''@_href'') then trim (decodeHtml d (get (JObj kvs) ''@_href''))
      else if is_string (get (JObj kvs) ''url'') then trim (decodeHtml d (get (JObj kvs) ''url''))
      else if is_string (get (JObj kvs) ''#text'') then trim (decodeHtml d (get (JObj kvs) ''#text''))
      else [])"
| "toLink d v = []"

definition parseTimestamp :: "(jsval \<Rightarrow> int option) \<Rightarrow> jsval \<Rightarrow> jsval" where
  \<comment> \<open>the first argument is \<open>new Date(value).getTime()\<close>\<close>
  "parseTimestamp getTime v =
     (if \<not> truthy v then JNull
      else case getTime v of None \<Rightarrow> JNull | Some timestamp \<Rightarrow> JNum timestamp)"

definition buildEpisodeId :: "(string \<Rightarrow> string) \<Rightarrow> jsval \<Rightarrow> string" where
  \<comment> \<open>the first argument is the digest \<open>createHash("sha256").update(s).digest("hex")\<close>\<close>
  "buildEpisodeId sha256 episode =
     (let fallbackSource =
            jsString (js_or (get episode ''title'') (JStr [])) @ ''-'' @
            jsString (js_or (get episode ''publishedAt'') (JStr [])) @ ''-'' @
            jsString (js_or (get episode ''audio'') (JStr []));
          source =
            js_or (get episode ''guid'')
            (js_or (get episode ''id'')
            (js_or (get episode ''uid'')
            (js_or (get episode ''audio'')
            (js_or (get episode ''url'')
            (js_or (get episode ''link'') (JStr fallbackSource))))))
      in sha256 (jsString source))"

definition first_candidate :: "jsval list \<Rightarrow> jsval \<Rightarrow> jsval" where
  \<comment> \<open>the specification's selection: the first candidate that is not empty, in the order
      of the list, else the fallback\<close>
  "first_candidate cs fallback = (case filter truthy cs of [] \<Rightarrow> fallback | c # _ \<Rightarrow> c)"

definition getChannelInfo :: "jsval \<Rightarrow> jsval" where
  "getChannelInfo rssData = js_or (get (get rssData ''rss'') ''channel'') (JObj [])"

definition js_slice :: "'a list \<Rightarrow> int \<Rightarrow> int \<Rightarrow> 'a list" where
  \<comment> \<open>\<open>xs.slice(s, e)\<close>: a negative bound counts from the end\<close>
  "js_slice xs s e =
     (let n = int (length xs);
          k = (if s < 0 then max (n + s) 0 else min s n);
          final = (if e < 0 then max (n + e) 0 else min e n)
      in take (nat (final - k)) (drop (nat k) xs))"

definition toEnclosure :: "jsval \<Rightarrow> jsval" where
  "toEnclosure enclosure =
     (if \<not> truthy enclosure then JObj []
      else case enclosure of
             JArr [] \<Rightarrow> JObj []
           | JArr (x # xs) \<Rightarrow> js_or x (JObj [])
           | _ \<Rightarrow> enclosure)"

definition trimmed_string :: "jsval \<Rightarrow> jsval" where
  \<comment> \<open>\<open>typeof raw === "string" ? raw.trim() : ""\<close>\<close>
  "trimmed_string raw = (case raw of JStr s \<Rightarrow> JStr (trim s) | _ \<Rightarrow> JStr [])"

definition episode_of :: "libs \<Rightarrow> jsval \<Rightarrow> int \<Rightarrow> nat \<Rightarrow> jsval \<Rightarrow> jsval" where
  \<comment> \<open>the callback of \<open>pageItems.map\<close> in \<open>extractEpisodesPage\<close>, for the item at
      \<open>index\<close> of the page that starts at \<open>start\<close>\<close>
  "episode_of l channel start index item =
     (let fallbackAuthor =
            js_or (get channel ''itunes:author'')
            (js_or (get channel ''author'') (js_or (get channel ''managingEditor'') (JStr [])));
          fallbackImage =
            js_or (get (get channel ''itunes:image'') ''@_href'')
            (js_or (get (get channel ''image'') ''url'')
            (js_or (get channel ''itunes:image'') (JStr [])));
          enclosure = toEnclosure (get item ''enclosure'');
          rawDescription =
            js_or (get item ''content:encoded'') (js_or (get item ''description'') (JStr []));
          descriptionHtml = toRichHtml l rawDescription;
          image =
            js_or (get (get item ''itunes:image'') ''@_href'')
            (js_or (get (get item ''image'') ''url'')
            (js_or (get item ''itunes:image'') fallbackImage));
          author =
            js_or (get item ''itunes:author'')
            (js_or (get item ''author'') (js_or (get item ''creator'') fallbackAuthor));
          episodeLink =
            js_or (JStr (toLink (he_decode l) (get item ''link'')))
            (js_or (JStr (toLink (he_decode l) (get item ''guid'')))
            (js_or (JStr (toLink (he_decode l) (get item ''feedburner:origLink'')))
            (js_or (JStr (toLink (he_decode l) (get enclosure ''url''))) (JStr []))));
          fallbackDescriptionText =
            trim (addReadableSpacing l (convertHtmlToPlainText l rawDescription));
          descriptionWithTimestamps =
            buildEpisodeDescriptionHtml l descriptionHtml fallbackDescriptionText;
          publishedAt =
            parseTimestamp (date_getTime l) (js_or (get item ''pubDate'') (js_or (get item ''dc:date'') (JStr [])));
          title = js_or (get item ''title'') (JStr (''Episode '' @ show_int (start + int index + 1)));
          rawGuid = get item ''guid'';
          rawId = get item ''id'';
          rawUid = get item ''uid'';
          guidValue = js_or (JStr (toLink (he_decode l) rawGuid)) (trimmed_string rawGuid);
          idValue = js_or (JStr (toLink (he_decode l) rawId)) (trimmed_string rawId);
          uidValue = js_or (JStr (toLink (he_decode l) rawUid)) (trimmed_string rawUid);
          audioUrl = js_or (get enclosure ''@_url'') (js_or (get enclosure ''url'') (JStr []));
          idSource = JObj
            [(''guid'', guidValue), (''id'', idValue), (''uid'', uidValue), (''audio'', audioUrl),
             (''url'', episodeLink), (''link'', episodeLink), (''title'', title),
             (''publishedAt'', publishedAt)];
          episodeId = buildEpisodeId (sha256_hex l) idSource
      in JObj
           [(''id'', JStr episodeId),
            (''title'', title),
            (''author'', author),
            (''publishedAt'', publishedAt),
            (''duration'', js_or (get item ''itunes:duration'') (js_or (get item ''duration'') (JStr []))),
            (''audio'', audioUrl),
            (''image'', image),
            (''description_html'', JStr descriptionWithTimestamps),
            (''description_text'', JStr (toText (he_decode l) rawDescription)),
            (''url'', episodeLink),
            (''link'', episodeLink),
            (''guid'', js_or guidValue (js_or idValue (js_or uidValue (JStr []))))])"

record episodes_page =
  total :: nat
  episodes :: "jsval list"


definition extractEpisodesPage :: "libs \<Rightarrow> jsval \<Rightarrow> int \<Rightarrow> int \<Rightarrow> episodes_page" where
  "extractEpisodesPage l rssData start limit =
     (let channel = getChannelInfo rssData;
          items = ensureArray (get channel ''item'');
          pageItems = js_slice items start (start + limit)
      in \<lparr>total = length items,
          episodes = map (\<lambda>(index, item). episode_of l channel start index item)
                       (enumerate 0 pageItems)\<rparr>)"

definition extractPodcastInfo :: "libs \<Rightarrow> jsval \<Rightarrow> jsval \<Rightarrow> jsval" where
  "extractPodcastInfo l rssData rssUrl =
     (let channel = getChannelInfo rssData;
          name = js_or (get channel ''title'') (JStr []);
          author =
            js_or (get channel ''itunes:author'')
            (js_or (get channel ''author'') (js_or (get channel ''managingEditor'') (JStr [])));
          image =
            js_or (get (get channel ''itunes:image'') ''@_href'')
            (js_or (get (get channel ''image'') ''url'')
            (js_or (get channel ''itunes:image'') (JStr [])));
          website =
            js_or (get channel ''link'')
            (js_or (get channel ''itunes:link'')
               (case get channel ''link'' of
                  JArr [] \<Rightarrow> JUndefined
                | JArr (x # xs) \<Rightarrow> x
                | _ \<Rightarrow> JStr []));
          rawDescription =
            js_or (get channel ''itunes:summary'')
            (js_or (get channel ''description'') (js_or (get channel ''itunes:subtitle'') (JStr [])))
      in JObj
           [(''name'', name),
            (''author'', author),
            (''rss'', rssUrl),
            (''image'', image),
            (''website'', website),
            (''description_html'', JStr (toRichHtml l rawDescription)),
            (''description_text'', JStr (toText (he_decode l) rawDescription))])"

definition hasPodcastInfo :: "jsval \<Rightarrow> bool" where
  "hasPodcastInfo podcast =
     (truthy podcast \<and>
      truthy (js_or (get podcast ''name'')
             (js_or (get podcast ''author'')
             (js_or (get podcast ''image'')
             (js_or (get podcast ''website'')
             (js_or (get podcast ''description_html'') (get podcast ''description_text'')))))))"

section \<open>The two routes\<close>

definition PER_PAGE :: int where
  "PER_PAGE = 10"

definition MAX_LIMIT :: int where
  "MAX_LIMIT = 50"

definition PODCAST_CACHE_SECONDS :: int where
  "PODCAST_CACHE_SECONDS = 60 * 60 * 48"

definition EPISODES_CACHE_SECONDS :: int where
  "EPISODES_CACHE_SECONDS = 60 * 60 * 36"

datatype route_error =
    MissingUrl               \<comment> \<open>status 400: no \<open>url\<close> parameter\<close>
  | Upstream fetch_error     \<comment> \<open>status 502 with the message of the fetch error\<close>
  | ParseError string        \<comment> \<open>status 502 with the message of the XML parser\<close>

record http_response =
  status :: nat
  cache_control :: "string option"
  payload :: "route_error + jsval"

record env =
  net :: world
  lib :: libs
  xml_parse :: "string \<Rightarrow> string + jsval"

definition setCacheHeader :: "int \<Rightarrow> string" where
  "setCacheHeader seconds = ''public, s-maxage='' @ show_int seconds @ '', max-age=0''"

definition disableCache :: string where
  "disableCache = ''no-store''"

definition parseRssFeed :: "env \<Rightarrow> string \<Rightarrow> route_error + jsval" where
  "parseRssFeed e url =
     (case fetchRss (net e) url 0 of
        Inl err \<Rightarrow> Inl (Upstream err)
      | Inr xmlContent \<Rightarrow>
          (case xml_parse e xmlContent of Inl msg \<Rightarrow> Inl (ParseError msg) | Inr tree \<Rightarrow> Inr tree))"

fun q_truthy :: "qval \<Rightarrow> bool" where
  "q_truthy QUndefined = False"
| "q_truthy QNull = False"
| "q_truthy (QStr s) = (s \<noteq> [])"
| "q_truthy v = True"

fun q_json :: "qval \<Rightarrow> jsval" where
  \<comment> \<open>a query value as it appears in the JSON answer\<close>
  "q_json QUndefined = JUndefined"
| "q_json QNull = JNull"
| "q_json (QStr s) = JStr s"
| "q_json (QArr xs) = JArr (map q_json xs)"
| "q_json (QObj kvs) = JObj (map (\<lambda>(k, v). (k, q_json v)) kvs)"

definition nullish_or :: "qval \<Rightarrow> string \<Rightarrow> string" where
  \<comment> \<open>\<open>value ?? dflt\<close>, then the conversion to a string that \<open>parseInt\<close> applies\<close>
  "nullish_or v dflt = (if v = QUndefined \<or> v = QNull then dflt else qString v)"

definition podcast_route :: "env \<Rightarrow> (string \<Rightarrow> qval) \<Rightarrow> http_response" where
  \<comment> \<open>\<open>router.get("/")\<close>\<close>
  "podcast_route e query =
     (let url = getQueryParam (query ''url'');
          refresh = getQueryParam (query ''refresh'')
      in if \<not> q_truthy url then \<lparr>status = 400, cache_control = None, payload = Inl MissingUrl\<rparr>
         else let bypassCache = isRefreshRequested refresh
              in case parseRssFeed e (qString url) of
                   Inl err \<Rightarrow> \<lparr>status = 502, cache_control = Some disableCache, payload = Inl err\<rparr>
                 | Inr parsed \<Rightarrow>
                     (let podcast = extractPodcastInfo (lib e) parsed (q_json url)
                      in \<lparr>status = 200,
                          cache_control =
                            Some (if bypassCache \<or> \<not> hasPodcastInfo podcast then disableCache
                                  else setCacheHeader PODCAST_CACHE_SECONDS),
                          payload = Inr (JObj [(''podcast'', podcast)])\<rparr>))"

definition safeCursor_of :: "qval \<Rightarrow> int" where
  "safeCursor_of cursor =
     (case parseInt (nullish_or cursor ''0'') of
        None \<Rightarrow> 0
      | Some parsedCursor \<Rightarrow> if parsedCursor < 0 then 0 else parsedCursor)"

definition safeLimit_of :: "qval \<Rightarrow> int" where
  "safeLimit_of limit =
     (case parseInt (nullish_or limit (show_int PER_PAGE)) of
        None \<Rightarrow> PER_PAGE
      | Some parsedLimit \<Rightarrow> if parsedLimit < 1 then PER_PAGE else min parsedLimit MAX_LIMIT)"

definition episodes_route :: "env \<Rightarrow> (string \<Rightarrow> qval) \<Rightarrow> http_response" where
  \<comment> \<open>\<open>router.get("/episodes")\<close>\<close>
  "episodes_route e query =
     (let url = getQueryParam (query ''url'');
          cursor = getQueryParam (query ''cursor'');
          limit = getQueryParam (query ''limit'');
          refresh = getQueryParam (query ''refresh'')
      in if \<not> q_truthy url then \<lparr>status = 400, cache_control = None, payload = Inl MissingUrl\<rparr>
         else let safeCursor = safeCursor_of cursor;
                  safeLimit = safeLimit_of limit;
                  bypassCache = isRefreshRequested refresh;
                  start = safeCursor
              in case parseRssFeed e (qString url) of
                   Inl err \<Rightarrow> \<lparr>status = 502, cache_control = Some disableCache, payload = Inl err\<rparr>
                 | Inr parsed \<Rightarrow>
                     (let podcast = extractPodcastInfo (lib e) parsed (q_json url);
                          page = extractEpisodesPage (lib e) parsed start safeLimit;
                          hasMore = (start + int (length (episodes page)) < int (total page));
                          nextCursor = (if hasMore then JNum (start + int (length (episodes page)))
                                        else JNull);
                          paginated = episodes page
                      in \<lparr>status = 200,
                          cache_control =
                            Some (if bypassCache \<or> length paginated = 0 then disableCache
                                  else setCacheHeader EPISODES_CACHE_SECONDS),
                          payload = Inr (JObj
                            [(''podcast'', podcast),
                             (''pagination'', JObj
                                [(''cursor'', JNum start),
                                 (''limit'', JNum safeLimit),
                                 (''nextCursor'', nextCursor),
                                 (''hasMore'', JBool hasMore)]),
                             (''episodes'', JArr paginated)])\<rparr>))"

section \<open>Notions for reasoning about the highlighter\<close>






















section \<open>Notions for reasoning about episode identifiers\<close>

text \<open>
  Names for the expressions of the callback in \<open>extractEpisodesPage\<close> that compute the
  candidates of an item: the text of an identifier (\<open>guid\<close>, \<open>id\<close>, \<open>uid\<close>), the audio
  URL of the enclosure, the link, and the composite text of title, date and audio URL
  for the item at a position of the feed.
\<close>

definition identifier_text :: "(string \<Rightarrow> string) \<Rightarrow> jsval \<Rightarrow> jsval" where
  \<comment> \<open>\<open>toLink(raw) || (typeof raw === "string" ? raw.trim() : "")\<close>\<close>
  "identifier_text d raw = js_or (JStr (toLink d raw)) (trimmed_string raw)"

definition audio_url :: "jsval \<Rightarrow> jsval" where
  \<comment> \<open>\<open>enclosure?.["@_url"] || enclosure?.url || ""\<close>\<close>
  "audio_url item =
     js_or (get (toEnclosure (get item ''enclosure'')) ''@_url'')
     (js_or (get (toEnclosure (get item ''enclosure'')) ''url'') (JStr []))"

definition episode_link :: "(string \<Rightarrow> string) \<Rightarrow> jsval \<Rightarrow> jsval" where
  "episode_link d item =
     js_or (JStr (toLink d (get item ''link'')))
     (js_or (JStr (toLink d (get item ''guid'')))
     (js_or (JStr (toLink d (get item ''feedburner:origLink'')))
     (js_or (JStr (toLink d (get (toEnclosure (get item ''enclosure'')) ''url''))) (JStr []))))"

definition composite :: "libs \<Rightarrow> int \<Rightarrow> jsval \<Rightarrow> string" where
  \<comment> \<open>the fallback of \<open>buildEpisodeId\<close> for the item at \<open>position\<close>, counted from 0\<close>
  "composite l position item =
     jsString (js_or (js_or (get item ''title'') (JStr (''Episode '' @ show_int (position + 1))))
                 (JStr [])) @ ''-'' @
     jsString (js_or (parseTimestamp (date_getTime l)
                 (js_or (get item ''pubDate'') (js_or (get item ''dc:date'') (JStr []))))
                 (JStr [])) @ ''-'' @
     jsString (js_or (audio_url item) (JStr []))"

section \<open>An example server\<close>

text \<open>
  A small world to run the definitions on. One host, given by its address, serves a
  feed of three items at \<open>/4\<close>, a chain of redirects \<open>/0\<close>, \<open>/1\<close>, \<open>/2\<close>, \<open>/3\<close> that ends
  there, at \<open>/big\<close> a body of three chunks that passes the byte cap with the second
  one, and at \<open>/internal\<close> a redirect to the loopback address. The identity stands in
  for the library functions. Then a document with a paragraph, a line break and a
  timestamp marker, an item whose \<open>guid\<close> is given, and a name that resolves to a
  link-local and to a public address.
\<close>

definition example_redirect :: "string \<Rightarrow> response" where
  "example_redirect target =
     \<lparr>statusCode = 302, location = Some target, content_encoding = None, body = [],
      failure = None\<rparr>"

definition example_big :: response where
  "example_big =
     \<lparr>statusCode = 200, location = None, content_encoding = None,
      body = [replicate 5242880 (CHR ''a''), ''b'', ''c''], failure = None\<rparr>"

definition example_feed :: response where
  "example_feed =
     \<lparr>statusCode = 200, location = None, content_encoding = None,
      body = [''<rss>'', ''</rss>''], failure = None\<rparr>"

definition example_world :: world where
  "example_world =
     \<lparr>new_URL = (\<lambda>s. if prefix ''http://93.184.216.34/'' s
                       then Some \<lparr>protocol = ''http:'', hostname = ''93.184.216.34'', href = s\<rparr>
                       else if prefix ''http://127.0.0.1/'' s
                       then Some \<lparr>protocol = ''http:'', hostname = ''127.0.0.1'', href = s\<rparr>
                       else None),
      new_URL_base = (\<lambda>loc base. None),
      dns_lookup = (\<lambda>host. Inl ''ENOTFOUND''),
      http_get = (\<lambda>u pin.
         if href u = ''http://93.184.216.34/0'' then Inr (example_redirect ''http://93.184.216.34/1'')
         else if href u = ''http://93.184.216.34/1'' then Inr (example_redirect ''http://93.184.216.34/2'')
         else if href u = ''http://93.184.216.34/2'' then Inr (example_redirect ''http://93.184.216.34/3'')
         else if href u = ''http://93.184.216.34/3'' then Inr (example_redirect ''http://93.184.216.34/4'')
         else if href u = ''http://93.184.216.34/4'' then Inr example_feed
         else if href u = ''http://93.184.216.34/big'' then Inr example_big
         else if href u = ''http://93.184.216.34/internal''
           then Inr (example_redirect ''http://127.0.0.1/admin'')
         else Inl ''ECONNREFUSED''),
      gunzip = (\<lambda>b. None),
      inflate = (\<lambda>b. None),
      brotliDecompress = (\<lambda>b. None),
      toString_utf8 = (\<lambda>b. b)\<rparr>"

definition example_libs :: libs where
  "example_libs =
     \<lparr>he_decode = (\<lambda>s. s), date_getTime = (\<lambda>v. None), sha256_hex = (\<lambda>s. s),
      toRichHtml = (\<lambda>v. []), convertHtmlToPlainText = (\<lambda>v. []),
      addReadableSpacing = (\<lambda>s. s), buildHtmlFromPlainText = (\<lambda>s. s)\<rparr>"

definition example_tree :: jsval where
  "example_tree =
     JObj [(''rss'', JObj [(''channel'', JObj
       [(''title'', JStr ''Show''),
        (''item'', JArr
           [JObj [(''title'', JStr ''One''), (''guid'', JStr ''g1'')],
            JObj [(''title'', JStr ''Two''), (''link'', JStr ''http://example.org/2'')],
            JObj [(''pubDate'', JStr ''x'')]])])])]"

definition example_env :: env where
  "example_env = \<lparr>net = example_world, lib = example_libs, xml_parse = (\<lambda>s. Inr example_tree)\<rparr>"

definition example_query :: "string \<Rightarrow> qval" where
  "example_query key =
     (if key = ''url'' then QStr ''http://93.184.216.34/4''
      else if key = ''cursor'' then QStr ''1''
      else if key = ''limit'' then QArr [QStr ''1'', QStr ''7'']
      else if key = ''refresh'' then QStr '' Yes ''
      else QUndefined)"

definition example_lookup :: dns where
  "example_lookup host =
     (if host = ''nothing.example.org'' then Inr (Some [])
      else if host = ''intranet.example.org''
        then Inr (Some [\<lparr>address = ''10.0.0.7'', family = 4\<rparr>, \<lparr>address = ''::1'', family = 6\<rparr>])
      else Inr (Some [\<lparr>address = ''10.0.0.7'', family = 4\<rparr>, \<lparr>address = ''::1'', family = 6\<rparr>,
                      \<lparr>address = ''93.184.216.34'', family = 4\<rparr>,
                      \<lparr>address = ''8.8.8.8'', family = 4\<rparr>]))"


definition example_numbered :: "jsval \<Rightarrow> jsval" where
  \<comment> \<open>an item with a \<open>guid\<close> and an enclosure, as the parser delivers it\<close>
  "example_numbered guid =
     JObj [(''guid'', guid), (''enclosure'', JObj [(''@_url'', JStr ''http://example.org/a.mp3'')])]"

definition example_numbered_tree :: jsval where
  \<comment> \<open>a feed with one item, its \<open>guid\<close> made of digits\<close>
  "example_numbered_tree =
     JObj [(''rss'', JObj [(''channel'', JObj [(''item'', example_numbered (JNum 12345))])])]"

definition example_link_local_lookup :: dns where
  \<comment> \<open>a name with an AAAA record in \<open>fe80::/10\<close> in front of a public A record\<close>
  "example_link_local_lookup host =
     Inr (Some [\<lparr>address = ''febf::1'', family = 6\<rparr>, \<lparr>address = ''8.8.8.8'', family = 4\<rparr>])"

definition example_link_local_world :: world where
  \<comment> \<open>the host behind that name answers on its link-local address only\<close>
  "example_link_local_world =
     \<lparr>new_URL = (\<lambda>s. if s = ''http://feeds.example.org/rss''
                       then Some \<lparr>protocol = ''http:'', hostname = ''feeds.example.org'', href = s\<rparr>
                       else None),
      new_URL_base = (\<lambda>loc base. None),
      dns_lookup = example_link_local_lookup,
      http_get = (\<lambda>u pin. if pin = Some \<lparr>address = ''febf::1'', family = 6\<rparr>
                           then Inr example_feed else Inl ''ECONNREFUSED''),
      gunzip = (\<lambda>b. None),
      inflate = (\<lambda>b. None),
      brotliDecompress = (\<lambda>b. None),
      toString_utf8 = (\<lambda>b. b)\<rparr>"

section \<open>The SSRF guard: what holds\<close>

lemma js_find_None: "js_find p xs = None \<longleftrightarrow> (\<forall>x \<in> set xs. \<not> p x)"
proof -
  have "js_find p xs = None \<longleftrightarrow> filter p xs = []"
    by (cases "filter p xs") (simp_all add: js_find_def)
  then show ?thesis by (simp add: filter_empty_conv)
qed

lemma js_find_first:
  "i < length xs \<Longrightarrow> p (xs ! i) \<Longrightarrow> (\<forall>j < i. \<not> p (xs ! j)) \<Longrightarrow> js_find p xs = Some (xs ! i)"
proof (induction xs arbitrary: i)
  case Nil
  then show ?case by simp
next
  case (Cons x xs)
  show ?case
  proof (cases i)
    case 0
    with Cons.prems show ?thesis by (simp add: js_find_def)
  next
    case (Suc k)
    with Cons.prems have "\<not> p x" by auto
    moreover have "js_find p xs = Some (xs ! k)"
      using Cons.prems Suc by (intro Cons.IH) auto
    ultimately show ?thesis using Suc by (simp add: js_find_def)
  qed
qed

lemma digit_plain:
  assumes "is_digit c"
  shows "\<not> is_space c" "c \<noteq> CHR ''-''" "c \<noteq> CHR ''+''"
  using assms by (auto simp: is_digit_def is_space_def)

lemma parseInt_digits:
  assumes "s \<noteq> []" "list_all is_digit s"
  shows "parseInt s = Some (dec_val s)"
proof -
  obtain c r where s: "s = c # r"
    using assms(1) by (cases s) auto
  have c: "is_digit c"
    using assms(2) s by simp
  have d: "dropWhile is_space s = s"
    using digit_plain(1) [OF c] s by simp
  have t: "takeWhile is_digit s = s"
    using assms(2) by (simp add: list_all_iff)
  show ?thesis
    unfolding parseInt_def d Let_def
    using digit_plain(2,3) [OF c] t assms(1) by (simp add: s)
qed

lemma isPrivateIp_ipv4_branch:
  assumes "net_isIP ip = 4"
  shows "isPrivateIp ip =
        (let parts = map parseInt (split_on (CHR ''.'') ip);
             a = (if 0 < length parts then parts ! 0 else None);
             b = (if 1 < length parts then parts ! 1 else None)
         in if a = Some 10 then True
            else if a = Some 127 then True
            else if a = Some 0 then True
            else if a = Some 169 \<and> b = Some 254 then True
            else if a = Some 172 \<and> (case b of Some n \<Rightarrow> 16 \<le> n \<and> n \<le> 31 | None \<Rightarrow> False) then True
            else if a = Some 192 \<and> b = Some 168 then True
            else if a = Some 100 \<and> (case b of Some n \<Rightarrow> 64 \<le> n \<and> n \<le> 127 | None \<Rightarrow> False) then True
            else False)"
  by (subst isPrivateIp.simps) (simp only: assms simp_thms if_True)

lemma octet_tests:
  "(let parts = [Some (a::int), Some b, c, d];
             a = (if 0 < length parts then parts ! 0 else None);
             b = (if 1 < length parts then parts ! 1 else None)
         in if a = Some 10 then True
            else if a = Some 127 then True
            else if a = Some 0 then True
            else if a = Some 169 \<and> b = Some 254 then True
            else if a = Some 172 \<and> (case b of Some n \<Rightarrow> 16 \<le> n \<and> n \<le> 31 | None \<Rightarrow> False) then True
            else if a = Some 192 \<and> b = Some 168 then True
            else if a = Some 100 \<and> (case b of Some n \<Rightarrow> 64 \<le> n \<and> n \<le> 127 | None \<Rightarrow> False) then True
            else False) =
    (a = 0 \<or> a = 10 \<or> a = 127 \<or> (a = 169 \<and> b = 254) \<or>
               (a = 172 \<and> 16 \<le> b \<and> b \<le> 31) \<or> (a = 192 \<and> b = 168) \<or>
               (a = 100 \<and> 64 \<le> b \<and> b \<le> 127))"
  by (simp add: Let_def)

lemma net_isIP_4: "net_isIP ip = 4 \<Longrightarrow> is_v4Str ip"
  by (cases "is_v4Str ip"; cases "is_v6Str ip") (simp_all add: net_isIP_def)

lemma v4_parts:
  assumes "is_v4Str ip"
  shows "\<exists>a b c d. split_on (CHR ''.'') ip = [a, b, c, d] \<and> is_v4Seg a \<and> is_v4Seg b"
proof -
  let ?p = "split_on (CHR ''.'') ip"
  have l: "length ?p = 4" and a: "list_all is_v4Seg ?p"
    using assms by (simp_all add: is_v4Str_def Let_def)
  from l obtain a b c d where p: "?p = [a, b, c, d]"
    by (auto simp: length_Suc_conv numeral_eq_Suc)
  then show ?thesis using a by auto
qed

text \<open>
  On an IPv4 address the classifier answers true exactly on the seven ranges of the
  specification, read off the first two numbers \<open>a\<close> and \<open>b\<close> of the dotted quad:
  \<open>0.0.0.0/8\<close>, \<open>10.0.0.0/8\<close>, \<open>127.0.0.0/8\<close>, \<open>169.254.0.0/16\<close>, \<open>172.16.0.0/12\<close>,
  \<open>192.168.0.0/16\<close> and \<open>100.64.0.0/10\<close>.
\<close>

lemma isPrivateIp_ipv4:
  assumes "net_isIP ip = 4"
  shows "isPrivateIp ip \<longleftrightarrow>
           (let a = dec_val (split_on (CHR ''.'') ip ! 0);
                b = dec_val (split_on (CHR ''.'') ip ! 1)
            in a = 0 \<or> a = 10 \<or> a = 127 \<or> (a = 169 \<and> b = 254) \<or>
               (a = 172 \<and> 16 \<le> b \<and> b \<le> 31) \<or> (a = 192 \<and> b = 168) \<or>
               (a = 100 \<and> 64 \<le> b \<and> b \<le> 127))"
proof -
  from v4_parts [OF net_isIP_4 [OF assms]] obtain a b c d
    where p: "split_on (CHR ''.'') ip = [a, b, c, d]" and s: "is_v4Seg a" "is_v4Seg b"
    by blast
  have q: "parseInt a = Some (dec_val a)" "parseInt b = Some (dec_val b)"
    using s by (simp_all add: is_v4Seg_def parseInt_digits)
  have "map parseInt (split_on (CHR ''.'') ip) = [Some (dec_val a), Some (dec_val b), parseInt c, parseInt d]"
    by (simp add: p q)
  then show ?thesis
    unfolding isPrivateIp_ipv4_branch [OF assms] using octet_tests [of "dec_val a" "dec_val b" "parseInt c" "parseInt d"]
    by (simp add: p Let_def)
qed

text \<open>
  The guard on the four addresses of the specification: the three private ones are
  refused, the public one passes.
\<close>

lemma ensurePublicUrl_examples:
  "ensurePublicUrl \<lparr>protocol = ''http:'', hostname = ''127.0.0.1'', href = ''http://127.0.0.1/feed''\<rparr>
     = Inl PrivateAddress"
  "ensurePublicUrl \<lparr>protocol = ''http:'', hostname = ''10.0.0.5'', href = ''http://10.0.0.5/feed''\<rparr>
     = Inl PrivateAddress"
  "ensurePublicUrl
     \<lparr>protocol = ''http:'', hostname = ''169.254.169.254'', href = ''http://169.254.169.254/feed''\<rparr>
     = Inl PrivateAddress"
  "ensurePublicUrl
     \<lparr>protocol = ''http:'', hostname = ''93.184.216.34'', href = ''http://93.184.216.34/feed''\<rparr>
     = Inr ()"
  by code_simp+

text \<open>
  C1. The classifier is claimed to answer true exactly on the listed ranges, among them
  all of \<open>fe80::/10\<close>. The address \<open>febf::1\<close> lies in \<open>fe80::/10\<close> and is a well-formed
  IPv6 address, yet the classifier answers false: the IPv6 branch compares the text with
  the prefix \<open>fe80:\<close> instead of the first ten bits.
\<close>

theorem isPrivateIp_misses_link_local:
  "net_isIP ''febf::1'' = 6 \<and> isPrivateIp ''febf::1'' = False"
  by code_simp

text \<open>
  The same textual tests answer true on \<open>fc::1\<close>, which is \<open>00fc::1\<close> and outside
  \<open>fc00::/7\<close>, and false on the loopback address and on the mapped \<open>127.0.0.1\<close> when
  they are not written in the shortest form.
\<close>

lemma isPrivateIp_textual:
  "isPrivateIp ''fc::1'' = True"
  "isPrivateIp ''0:0:0:0:0:0:0:1'' = False"
  "isPrivateIp ''::ffff:7f00:1'' = False"
  by code_simp+

text \<open>
  The selection among the resolver's addresses follows the classifier. When the lookup
  of a host name yields a list of addresses, \<open>resolvePublicAddress\<close> fails with the DNS
  error on the empty list, fails with the forbidden-address error when the list is not
  empty and the classifier answers true on every address in it, and otherwise returns
  the first record of the list on which the classifier answers false: the record at the
  least index \<open>i\<close> such that it answers true on every record before it.
\<close>

lemma resolvePublicAddress_first_unflagged:
  assumes "lookup host = Inr (Some addresses)"
  shows "(addresses = [] \<longrightarrow> resolvePublicAddress lookup host = Inl DnsFailure) \<and>
         (addresses \<noteq> [] \<and> (\<forall>r \<in> set addresses. isPrivateIp (address r)) \<longrightarrow>
            resolvePublicAddress lookup host = Inl PrivateAddress) \<and>
         (\<forall>i < length addresses.
            \<not> isPrivateIp (address (addresses ! i)) \<and>
            (\<forall>j < i. isPrivateIp (address (addresses ! j))) \<longrightarrow>
            resolvePublicAddress lookup host = Inr (addresses ! i))"
proof (intro conjI impI allI)
  assume "addresses = []"
  then show "resolvePublicAddress lookup host = Inl DnsFailure"
    using assms by (simp add: resolvePublicAddress_def)
next
  assume a: "addresses \<noteq> [] \<and> (\<forall>r \<in> set addresses. isPrivateIp (address r))"
  then have "js_find (\<lambda>record. \<not> isPrivateIp (address record)) addresses = None"
    by (simp add: js_find_None)
  then show "resolvePublicAddress lookup host = Inl PrivateAddress"
    using assms a by (simp add: resolvePublicAddress_def)
next
  fix i
  assume i: "i < length addresses"
    and b: "\<not> isPrivateIp (address (addresses ! i)) \<and>
            (\<forall>j < i. isPrivateIp (address (addresses ! j)))"
  then have "js_find (\<lambda>record. \<not> isPrivateIp (address record)) addresses = Some (addresses ! i)"
    by (intro js_find_first) auto
  moreover have "addresses \<noteq> []"
    using i by auto
  ultimately show "resolvePublicAddress lookup host = Inr (addresses ! i)"
    using assms by (simp add: resolvePublicAddress_def)
qed

lemma resolvePublicAddress_examples:
  "resolvePublicAddress example_lookup ''feeds.example.org'' =
     Inr \<lparr>address = ''93.184.216.34'', family = 4\<rparr> \<and>
   resolvePublicAddress example_lookup ''intranet.example.org'' = Inl PrivateAddress \<and>
   resolvePublicAddress example_lookup ''nothing.example.org'' = Inl DnsFailure"
proof -
  let ?as = "[\<lparr>address = ''10.0.0.7'', family = 4\<rparr>, \<lparr>address = ''::1'', family = 6\<rparr>,
              \<lparr>address = ''93.184.216.34'', family = 4\<rparr>, \<lparr>address = ''8.8.8.8'', family = 4::nat\<rparr>]"
  let ?bs = "[\<lparr>address = ''10.0.0.7'', family = 4\<rparr>, \<lparr>address = ''::1'', family = 6::nat\<rparr>]"
  have h: "example_lookup ''feeds.example.org'' = Inr (Some ?as)"
    by (simp add: example_lookup_def)
  have i: "example_lookup ''intranet.example.org'' = Inr (Some ?bs)"
    by (simp add: example_lookup_def)
  have n: "example_lookup ''nothing.example.org'' = Inr (Some [])"
    by (simp add: example_lookup_def)
  have p: "isPrivateIp ''10.0.0.7''" "isPrivateIp ''::1''" "\<not> isPrivateIp ''93.184.216.34''"
    by code_simp+
  have q: "\<forall>j < 2. isPrivateIp (address (?as ! j))"
    using p by (simp add: less_Suc_eq numeral_2_eq_2)
  from resolvePublicAddress_first_unflagged [of example_lookup "''feeds.example.org''" ?as, OF h]
  have "2 < length ?as \<longrightarrow>
        \<not> isPrivateIp (address (?as ! 2)) \<and> (\<forall>j < 2. isPrivateIp (address (?as ! j))) \<longrightarrow>
        resolvePublicAddress example_lookup ''feeds.example.org'' = Inr (?as ! 2)"
    by blast
  with q p have a: "resolvePublicAddress example_lookup ''feeds.example.org'' =
      Inr \<lparr>address = ''93.184.216.34'', family = 4\<rparr>"
    by simp
  from resolvePublicAddress_first_unflagged [of example_lookup "''intranet.example.org''" ?bs, OF i]
  have "?bs \<noteq> [] \<and> (\<forall>r \<in> set ?bs. isPrivateIp (address r)) \<longrightarrow>
        resolvePublicAddress example_lookup ''intranet.example.org'' = Inl PrivateAddress"
    by blast
  with p have b: "resolvePublicAddress example_lookup ''intranet.example.org'' = Inl PrivateAddress"
    by simp
  from resolvePublicAddress_first_unflagged [of example_lookup "''nothing.example.org''" "[]", OF n]
  have c: "resolvePublicAddress example_lookup ''nothing.example.org'' = Inl DnsFailure"
    by blast
  show ?thesis
    using a b c by blast
qed

text \<open>
  C2. \<open>resolvePublicAddress\<close> is claimed to return the first address of the lookup that
  is not private or reserved. For a name whose lookup yields \<open>febf::1\<close>, an address of
  the link-local range \<open>fe80::/10\<close>, in front of the public \<open>8.8.8.8\<close>, it returns the
  link-local address: the classifier it selects with does not know \<open>febf::1\<close> as
  private.
\<close>

theorem resolvePublicAddress_returns_link_local:
  "resolvePublicAddress example_link_local_lookup ''feeds.example.org'' =
     Inr \<lparr>address = ''febf::1'', family = 6\<rparr>"
  by code_simp

section \<open>Plain text\<close>

text \<open>
  C7, as stated: \<open>toText\<close> on two adjacent paragraphs would give the two words with a
  blank line between them. It does not, when the decoder leaves the text as it is (the
  text has no entity).
\<close>

theorem toText_paragraphs_counterexample:
  "toText id (JStr ''<p>Hi</p><p>There</p>'') \<noteq> ''Hi\<newline>\<newline>There''"
  by code_simp

lemma toText_id_paragraphs: "toText id (JStr ''<p>Hi</p><p>There</p>'') = ''Hi\<newline>There''"
  by code_simp

text \<open>
  C7, amended: each paragraph closer becomes one line break, so \<open>toText\<close> on the two
  adjacent paragraphs gives the two words on consecutive lines, with no blank line
  between them, for every decoder that leaves this text unchanged.
\<close>

theorem toText_paragraphs:
  assumes "decode ''<p>Hi</p><p>There</p>'' = ''<p>Hi</p><p>There</p>''"
  shows "toText decode (JStr ''<p>Hi</p><p>There</p>'') = ''Hi\<newline>There''"
proof -
  have "toText decode (JStr ''<p>Hi</p><p>There</p>'') = toText id (JStr ''<p>Hi</p><p>There</p>'')"
    using assms by (simp add: toText_def decodeHtml_def)
  then show ?thesis by (simp add: toText_id_paragraphs)
qed

theorem toText_paragraphs_witness:
  "id ''<p>Hi</p><p>There</p>'' = ''<p>Hi</p><p>There</p>'' \<and>
   toText id (JStr ''<p>Hi</p><p>There</p>'') = ''Hi\<newline>There''"
  using toText_paragraphs [of id] by simp

section \<open>The refresh parameter\<close>

lemma isRefreshRequested_first:
  "isRefreshRequested v =
     (first_element v \<noteq> QUndefined \<and> first_element v \<noteq> QNull \<and>
      toLowerCase (trim (qString (first_element v))) \<notin> {[], ''0'', ''false'', ''no''})"
  by (induction v rule: isRefreshRequested.induct) (simp_all add: Let_def)

lemma routes_no_store:
  assumes "q_truthy (getQueryParam (query ''url''))"
      and "isRefreshRequested (getQueryParam (query ''refresh''))"
  shows "cache_control (podcast_route e query) = Some ''no-store''"
    and "cache_control (episodes_route e query) = Some ''no-store''"
  using assms
  by (simp_all add: podcast_route_def episodes_route_def Let_def disableCache_def split: sum.split)

text \<open>
  C10. \<open>isRefreshRequested\<close> answers false exactly when the value, after taking the
  first element as long as it is an array, is undefined or null, or when its string
  form, trimmed and in lower case, is empty or one of \<open>0\<close>, \<open>false\<close>, \<open>no\<close>. Whenever it
  answers true on the \<open>refresh\<close> parameter of a request that has a \<open>url\<close>, both routes
  answer with the cache header \<open>no-store\<close>.
\<close>

theorem refresh_bypass:
  "(isRefreshRequested v \<longleftrightarrow>
      first_element v \<noteq> QUndefined \<and> first_element v \<noteq> QNull \<and>
      toLowerCase (trim (qString (first_element v))) \<notin> {[], ''0'', ''false'', ''no''}) \<and>
   (q_truthy (getQueryParam (query ''url'')) \<and>
    isRefreshRequested (getQueryParam (query ''refresh'')) \<longrightarrow>
      cache_control (podcast_route e query) = Some ''no-store'' \<and>
      cache_control (episodes_route e query) = Some ''no-store'')"
  using isRefreshRequested_first [of v] routes_no_store [of query e] by blast

theorem refresh_bypass_witness:
  "q_truthy (getQueryParam (example_query ''url'')) \<and>
   isRefreshRequested (getQueryParam (example_query ''refresh'')) \<and>
   getQueryParam (example_query ''refresh'') = QStr '' Yes '' \<and>
   cache_control (podcast_route example_env example_query) = Some ''no-store'' \<and>
   cache_control (episodes_route example_env example_query) = Some ''no-store'' \<and>
   \<not> isRefreshRequested (QArr [QStr '' FALSE '', QStr ''1''])"
proof -
  have a: "q_truthy (getQueryParam (example_query ''url''))"
    by (simp add: example_query_def getQueryParam_def)
  have r: "getQueryParam (example_query ''refresh'') = QStr '' Yes ''"
    by (simp add: example_query_def getQueryParam_def)
  have b: "isRefreshRequested (QStr '' Yes '')"
    by code_simp
  have c: "\<not> isRefreshRequested (QArr [QStr '' FALSE '', QStr ''1''])"
    by code_simp
  show ?thesis
    using refresh_bypass [of "QStr '' Yes ''" example_query example_env] a b c r by simp
qed

section \<open>The fetcher: byte cap and redirects\<close>

lemma deliver_within:
  assumes "\<not> destroyed st" "promise st = None"
      and "totalBytes st + sum_list (map length cs) \<le> MAX_RSS_BYTES"
  shows "deliver w res st cs =
           ((case failure res of
               None \<Rightarrow> onEnd w (content_encoding res) (st\<lparr>totalBytes := totalBytes st + sum_list (map length cs), chunks := chunks st @ cs\<rparr>)
             | Some msg \<Rightarrow> error_event msg (st\<lparr>totalBytes := totalBytes st + sum_list (map length cs), chunks := chunks st @ cs\<rparr>)), [])"
  using assms
proof (induction cs arbitrary: st)
  case Nil
  then show ?case by (simp split: option.split)
next
  case (Cons c cs)
  let ?st' = "st\<lparr>totalBytes := totalBytes st + length c, chunks := chunks st @ [c]\<rparr>"
  have od: "onData st c = ?st'"
    using Cons.prems by (simp add: onData_def Let_def)
  have step: "deliver w res st (c # cs) = deliver w res ?st' cs"
    using Cons.prems by (simp add: od)
  have ih: "deliver w res ?st' cs = ((case failure res of
               None \<Rightarrow> onEnd w (content_encoding res) (?st'\<lparr>totalBytes := totalBytes ?st' + sum_list (map length cs), chunks := chunks ?st' @ cs\<rparr>)
             | Some msg \<Rightarrow> error_event msg (?st'\<lparr>totalBytes := totalBytes ?st' + sum_list (map length cs), chunks := chunks ?st' @ cs\<rparr>)), [])"
    using Cons.prems by (intro Cons.IH) simp_all
  show ?case unfolding step ih by (simp add: add.assoc split: option.split)
qed

lemma deliver_over:
  assumes "\<not> destroyed st" "promise st = None"
      and "totalBytes st \<le> MAX_RSS_BYTES"
      and "MAX_RSS_BYTES < totalBytes st + sum_list (map length cs)"
  shows "\<exists>n < length cs.
           totalBytes st + sum_list (map length (take n cs)) \<le> MAX_RSS_BYTES \<and>
           MAX_RSS_BYTES < totalBytes st + sum_list (map length (take (Suc n) cs)) \<and>
           snd (deliver w res st cs) = drop (Suc n) cs \<and>
           chunks (fst (deliver w res st cs)) = chunks st @ take n cs \<and>
           destroyed (fst (deliver w res st cs)) \<and>
           promise (fst (deliver w res st cs)) = Some (Inl TooLarge)"
  using assms
proof (induction cs arbitrary: st)
  case Nil
  then show ?case by simp
next
  case (Cons c cs)
  show ?case
  proof (cases "MAX_RSS_BYTES < totalBytes st + length c")
    case True
    then have "deliver w res st (c # cs) =
                 (st\<lparr>totalBytes := totalBytes st + length c, destroyed := True, promise := Some (Inl TooLarge)\<rparr>, cs)"
      using Cons.prems by (simp add: onData_def Let_def settle_def)
    then show ?thesis
      using True Cons.prems by (intro exI [of _ 0]) (simp del: deliver.simps)
  next
    case False
    let ?st' = "st\<lparr>totalBytes := totalBytes st + length c, chunks := chunks st @ [c]\<rparr>"
    have od: "onData st c = ?st'"
      using False by (simp add: onData_def Let_def)
    have step: "deliver w res st (c # cs) = deliver w res ?st' cs"
      using Cons.prems by (simp add: od)
    have "\<exists>n < length cs.
           totalBytes ?st' + sum_list (map length (take n cs)) \<le> MAX_RSS_BYTES \<and>
           MAX_RSS_BYTES < totalBytes ?st' + sum_list (map length (take (Suc n) cs)) \<and>
           snd (deliver w res ?st' cs) = drop (Suc n) cs \<and>
           chunks (fst (deliver w res ?st' cs)) = chunks ?st' @ take n cs \<and>
           destroyed (fst (deliver w res ?st' cs)) \<and>
           promise (fst (deliver w res ?st' cs)) = Some (Inl TooLarge)"
      using Cons.prems False by (intro Cons.IH) simp_all
    then obtain n where n: "n < length cs"
           "totalBytes ?st' + sum_list (map length (take n cs)) \<le> MAX_RSS_BYTES"
           "MAX_RSS_BYTES < totalBytes ?st' + sum_list (map length (take (Suc n) cs))"
           "snd (deliver w res ?st' cs) = drop (Suc n) cs"
           "chunks (fst (deliver w res ?st' cs)) = chunks ?st' @ take n cs"
           "destroyed (fst (deliver w res ?st' cs))"
           "promise (fst (deliver w res ?st' cs)) = Some (Inl TooLarge)"
      by blast
    show ?thesis
      unfolding step using n by (intro exI [of _ "Suc n"]) (simp add: add.assoc)
  qed
qed

lemma onEnd_decode:
  "promise st = None \<Longrightarrow> totalBytes st \<le> MAX_RSS_BYTES \<Longrightarrow>
   promise (onEnd w enc st) = Some (decode_body w enc (concat (chunks st)))"
  by (simp add: onEnd_def decode_body_def finish_def settle_def Let_def split: option.split)

lemma fetchRss_ok:
  assumes "send_request w url = Inr (parsedUrl, res)" and "statusCode res = 200"
  shows "fetchRss w url k = receiveBody w res"
  using assms by (subst fetchRss.simps) (simp add: is_redirect_def)

lemma receiveBody_within:
  assumes "sum_list (map length (body res)) \<le> MAX_RSS_BYTES" "failure res = None"
  shows "receiveBody w res = decode_body w (content_encoding res) (concat (body res))"
    and "snd (deliver w res receiver0 (body res)) = []"
proof -
  have d: "deliver w res receiver0 (body res) =
          (onEnd w (content_encoding res) (receiver0\<lparr>totalBytes := totalBytes receiver0 + sum_list (map length (body res)), chunks := chunks receiver0 @ body res\<rparr>), [])"
    using assms deliver_within [of receiver0 "body res" w res] by (simp add: receiver0_def)
  show "snd (deliver w res receiver0 (body res)) = []" by (simp add: d)
  show "receiveBody w res = decode_body w (content_encoding res) (concat (body res))"
    unfolding receiveBody_def d using assms
    by (simp add: settled_def onEnd_decode receiver0_def)
qed

lemma fetchRss_no_redirect:
  "\<not> answers_redirect w url \<Longrightarrow> fetchRss w url k = fetchRss w url k'"
  by (subst fetchRss.simps, subst (2) fetchRss.simps)
     (auto simp: answers_redirect_def split: sum.splits)

lemma fetchRss_redirect:
  assumes "redirect_of w url = Some next"
  shows "fetchRss w url k =
           (if k \<ge> MAX_REDIRECTS then Inl TooManyRedirects else fetchRss w next (k + 1))"
  using assms
  by (subst fetchRss.simps) (auto simp: redirect_of_def split: sum.splits if_splits)

lemma fetchRss_chain:
  assumes "length urls = Suc n"
      and "\<forall>i < n. redirect_of w (urls ! i) = Some (urls ! Suc i)"
      and "k \<le> MAX_REDIRECTS"
  shows "fetchRss w (urls ! 0) k =
           (if k + n \<le> MAX_REDIRECTS then fetchRss w (urls ! n) (k + n) else Inl TooManyRedirects)"
  using assms
proof (induction n arbitrary: urls k)
  case 0
  then show ?case by simp
next
  case (Suc n)
  from Suc.prems obtain u rest where urls: "urls = u # rest"
    by (cases urls) auto
  have first: "redirect_of w u = Some (rest ! 0)"
    using Suc.prems(2) urls by auto
  have len: "length rest = Suc n"
    using Suc.prems(1) urls by simp
  have chain: "\<forall>i < n. redirect_of w (rest ! i) = Some (rest ! Suc i)"
  proof (intro allI impI)
    fix i assume "i < n"
    then have "redirect_of w (urls ! Suc i) = Some (urls ! Suc (Suc i))"
      using Suc.prems(2) by auto
    then show "redirect_of w (rest ! i) = Some (rest ! Suc i)"
      using urls by simp
  qed
  show ?case
  proof (cases "k \<ge> MAX_REDIRECTS")
    case True
    then show ?thesis
      using fetchRss_redirect [OF first, of k] urls by simp
  next
    case False
    then have "fetchRss w (rest ! 0) (k + 1) =
           (if k + 1 + n \<le> MAX_REDIRECTS then fetchRss w (rest ! n) (k + 1 + n) else Inl TooManyRedirects)"
      using Suc.IH [OF len chain, of "k + 1"] by simp
    then show ?thesis
      using fetchRss_redirect [OF first, of k] False urls by simp
  qed
qed

lemma fetchRss_revalidates:
  assumes "redirect_of w url = Some target" "new_URL w target = Some p" "ensurePublicUrl p = Inl err"
  shows "fetchRss w url 0 = Inl err"
proof -
  have "fetchRss w target 1 = Inl err"
    using assms(2,3) by (subst fetchRss.simps) (simp add: send_request_def)
  then show ?thesis
    using fetchRss_redirect [OF assms(1), of 0] by (simp add: MAX_REDIRECTS_def)
qed

lemma example_host: "net_isIP ''93.184.216.34'' = 4" "\<not> isPrivateIp ''93.184.216.34''"
  "toLowerCase ''93.184.216.34'' = ''93.184.216.34''"
  "\<not> endsWith ''93.184.216.34'' ''.localhost''"
  by code_simp+

lemma example_send:
  assumes "prefix ''http://93.184.216.34/'' url"
  shows "send_request example_world url =
           (case http_get example_world \<lparr>protocol = ''http:'', hostname = ''93.184.216.34'', href = url\<rparr> None of
              Inl msg \<Rightarrow> Inl (error_of_message msg)
            | Inr res \<Rightarrow> Inr (\<lparr>protocol = ''http:'', hostname = ''93.184.216.34'', href = url\<rparr>, res))"
proof -
  have "new_URL example_world url = Some \<lparr>protocol = ''http:'', hostname = ''93.184.216.34'', href = url\<rparr>"
    using assms by (simp add: example_world_def)
  moreover have "ensurePublicUrl \<lparr>protocol = ''http:'', hostname = ''93.184.216.34'', href = url\<rparr> = Inr ()"
    by (simp add: ensurePublicUrl_def example_host Let_def)
  ultimately show ?thesis
    by (simp add: send_request_def example_host Let_def)
qed

lemma example_redirects:
  "redirect_of example_world ''http://93.184.216.34/0'' = Some ''http://93.184.216.34/1''"
  "redirect_of example_world ''http://93.184.216.34/1'' = Some ''http://93.184.216.34/2''"
  "redirect_of example_world ''http://93.184.216.34/2'' = Some ''http://93.184.216.34/3''"
  "redirect_of example_world ''http://93.184.216.34/3'' = Some ''http://93.184.216.34/4''"
  by (simp_all add: redirect_of_def example_send)
     (simp_all add: example_world_def example_redirect_def is_redirect_def redirect_target_def
        startsWith_def)

lemma example_final:
  "send_request example_world ''http://93.184.216.34/4'' =
     Inr (\<lparr>protocol = ''http:'', hostname = ''93.184.216.34'', href = ''http://93.184.216.34/4''\<rparr>, example_feed)"
  "send_request example_world ''http://93.184.216.34/big'' =
     Inr (\<lparr>protocol = ''http:'', hostname = ''93.184.216.34'', href = ''http://93.184.216.34/big''\<rparr>, example_big)"
  by (simp_all add: example_send) (simp_all add: example_world_def)

lemma example_internal:
  "redirect_of example_world ''http://93.184.216.34/internal'' = Some ''http://127.0.0.1/admin''"
  "new_URL example_world ''http://127.0.0.1/admin'' =
     Some \<lparr>protocol = ''http:'', hostname = ''127.0.0.1'', href = ''http://127.0.0.1/admin''\<rparr>"
  "ensurePublicUrl \<lparr>protocol = ''http:'', hostname = ''127.0.0.1'', href = ''http://127.0.0.1/admin''\<rparr>
     = Inl PrivateAddress"
proof -
  show "redirect_of example_world ''http://93.184.216.34/internal'' = Some ''http://127.0.0.1/admin''"
    by (simp add: redirect_of_def example_send)
       (simp add: example_world_def example_redirect_def is_redirect_def redirect_target_def
          startsWith_def)
  show "new_URL example_world ''http://127.0.0.1/admin'' =
     Some \<lparr>protocol = ''http:'', hostname = ''127.0.0.1'', href = ''http://127.0.0.1/admin''\<rparr>"
    by (simp add: example_world_def)
  show "ensurePublicUrl \<lparr>protocol = ''http:'', hostname = ''127.0.0.1'', href = ''http://127.0.0.1/admin''\<rparr>
     = Inl PrivateAddress"
    by code_simp
qed

lemma example_fetch_feed: "fetchRss example_world ''http://93.184.216.34/4'' 0 = Inr ''<rss></rss>''"
proof -
  have s: "statusCode example_feed = 200"
    by (simp add: example_feed_def)
  have "receiveBody example_world example_feed =
          decode_body example_world (content_encoding example_feed) (concat (body example_feed))"
    by (rule receiveBody_within(1)) (simp_all add: example_feed_def MAX_RSS_BYTES_def)
  also have "\<dots> = Inr ''<rss></rss>''"
    by (simp add: decode_body_def example_feed_def example_world_def)
  finally show ?thesis
    by (simp add: fetchRss_ok [OF example_final(1) s])
qed

lemma link_local_send:
  "send_request example_link_local_world ''http://feeds.example.org/rss'' =
     Inr (\<lparr>protocol = ''http:'', hostname = ''feeds.example.org'',
           href = ''http://feeds.example.org/rss''\<rparr>, example_feed)"
proof -
  let ?u = "\<lparr>protocol = ''http:'', hostname = ''feeds.example.org'',
             href = ''http://feeds.example.org/rss''\<rparr>"
  have h: "toLowerCase ''feeds.example.org'' = ''feeds.example.org''"
    "net_isIP ''feeds.example.org'' = 0" "\<not> endsWith ''feeds.example.org'' ''.localhost''"
    "net_isIP ''febf::1'' = 6"
    by code_simp+
  have r: "resolvePublicAddress example_link_local_lookup ''feeds.example.org'' =
      Inr \<lparr>address = ''febf::1'', family = 6\<rparr>"
    by code_simp
  have n: "new_URL example_link_local_world ''http://feeds.example.org/rss'' = Some ?u"
    by (simp add: example_link_local_world_def)
  have e: "ensurePublicUrl ?u = Inr ()"
    by (simp add: ensurePublicUrl_def h Let_def)
  have d: "dns_lookup example_link_local_world = example_link_local_lookup"
    by (simp add: example_link_local_world_def)
  have g: "http_get example_link_local_world ?u (Some \<lparr>address = ''febf::1'', family = 6\<rparr>) =
      Inr example_feed"
    by (simp add: example_link_local_world_def)
  show ?thesis
    by (simp add: send_request_def n e h d g r Let_def)
qed

text \<open>
  A link-local address that the classifier does not know is not only selected: the
  request goes to it. The fetch of a feed under a name that resolves to \<open>febf::1\<close> and
  to a public address succeeds with the body that only the link-local address serves.
\<close>

lemma fetchRss_reaches_link_local:
  "fetchRss example_link_local_world ''http://feeds.example.org/rss'' 0 = Inr ''<rss></rss>''"
proof -
  have s: "statusCode example_feed = 200"
    by (simp add: example_feed_def)
  have "receiveBody example_link_local_world example_feed =
          decode_body example_link_local_world (content_encoding example_feed)
            (concat (body example_feed))"
    by (rule receiveBody_within(1)) (simp_all add: example_feed_def MAX_RSS_BYTES_def)
  also have "\<dots> = Inr ''<rss></rss>''"
    by (simp add: decode_body_def example_feed_def example_link_local_world_def)
  finally show ?thesis
    by (simp add: fetchRss_ok [OF link_local_send s])
qed

text \<open>
  C3. For a request that is answered with status 200: when the bytes of the body add up
  to more than the cap of 5 MiB, \<open>fetchRss\<close> fails with the too-large error, and the
  transfer stops at the chunk on which the counter first passes the cap: the chunks
  before it were kept, the response is destroyed, and the chunks behind it are never
  delivered. When the bytes stay at or under the cap and the stream ends, every chunk is
  delivered and the result is the whole body, decoded by its content encoding.
\<close>

theorem fetchRss_byte_cap:
  assumes "send_request w url = Inr (parsedUrl, res)" and "statusCode res = 200"
  shows "(MAX_RSS_BYTES < sum_list (map length (body res)) \<longrightarrow>
            fetchRss w url k = Inl TooLarge \<and>
            (\<exists>n < length (body res).
               sum_list (map length (take n (body res))) \<le> MAX_RSS_BYTES \<and>
               MAX_RSS_BYTES < sum_list (map length (take (Suc n) (body res))) \<and>
               snd (deliver w res receiver0 (body res)) = drop (Suc n) (body res) \<and>
               chunks (fst (deliver w res receiver0 (body res))) = take n (body res) \<and>
               destroyed (fst (deliver w res receiver0 (body res))))) \<and>
         (sum_list (map length (body res)) \<le> MAX_RSS_BYTES \<and> failure res = None \<longrightarrow>
            fetchRss w url k = decode_body w (content_encoding res) (concat (body res)) \<and>
            snd (deliver w res receiver0 (body res)) = []) \<and>
         MAX_RSS_BYTES = 5242880"
proof (intro conjI impI)
  assume over: "MAX_RSS_BYTES < sum_list (map length (body res))"
  from deliver_over [of receiver0 "body res" w res] over
  obtain n where n: "n < length (body res)"
      "sum_list (map length (take n (body res))) \<le> MAX_RSS_BYTES"
      "MAX_RSS_BYTES < sum_list (map length (take (Suc n) (body res)))"
      "snd (deliver w res receiver0 (body res)) = drop (Suc n) (body res)"
      "chunks (fst (deliver w res receiver0 (body res))) = take n (body res)"
      "destroyed (fst (deliver w res receiver0 (body res)))"
      "promise (fst (deliver w res receiver0 (body res))) = Some (Inl TooLarge)"
    by (auto simp: receiver0_def)
  show "fetchRss w url k = Inl TooLarge"
    using n(7) by (simp add: fetchRss_ok [OF assms] receiveBody_def settled_def)
  show "\<exists>n < length (body res).
               sum_list (map length (take n (body res))) \<le> MAX_RSS_BYTES \<and>
               MAX_RSS_BYTES < sum_list (map length (take (Suc n) (body res))) \<and>
               snd (deliver w res receiver0 (body res)) = drop (Suc n) (body res) \<and>
               chunks (fst (deliver w res receiver0 (body res))) = take n (body res) \<and>
               destroyed (fst (deliver w res receiver0 (body res)))"
    using n by blast
next
  assume "sum_list (map length (body res)) \<le> MAX_RSS_BYTES \<and> failure res = None"
  then show "fetchRss w url k = decode_body w (content_encoding res) (concat (body res))"
    by (simp add: fetchRss_ok [OF assms] receiveBody_within)
next
  assume "sum_list (map length (body res)) \<le> MAX_RSS_BYTES \<and> failure res = None"
  then show "snd (deliver w res receiver0 (body res)) = []"
    by (simp add: receiveBody_within)
next
  show "MAX_RSS_BYTES = 5242880" by (simp add: MAX_RSS_BYTES_def)
qed

theorem fetchRss_byte_cap_witness:
  "statusCode example_big = 200 \<and>
   MAX_RSS_BYTES < sum_list (map length (body example_big)) \<and>
   fetchRss example_world ''http://93.184.216.34/big'' 0 = Inl TooLarge \<and>
   snd (deliver example_world example_big receiver0 (body example_big)) = [''c''] \<and>
   statusCode example_feed = 200 \<and>
   sum_list (map length (body example_feed)) \<le> MAX_RSS_BYTES \<and>
   fetchRss example_world ''http://93.184.216.34/4'' 0 = Inr ''<rss></rss>''"
proof -
  have s: "statusCode example_big = 200" "statusCode example_feed = 200"
    by (simp_all add: example_big_def example_feed_def)
  have b: "body example_big = [replicate 5242880 (CHR ''a''), ''b'', ''c'']"
    by (simp add: example_big_def)
  have over: "MAX_RSS_BYTES < sum_list (map length (body example_big))"
    by (simp add: b MAX_RSS_BYTES_def)
  have within: "sum_list (map length (body example_feed)) \<le> MAX_RSS_BYTES \<and> failure example_feed = None"
    by (simp add: example_feed_def MAX_RSS_BYTES_def)
  note big = fetchRss_byte_cap [OF example_final(2) s(1), of 0]
  note feed = fetchRss_byte_cap [OF example_final(1) s(2), of 0]
  from big over obtain n where n: "n < length (body example_big)"
      "sum_list (map length (take n (body example_big))) \<le> MAX_RSS_BYTES"
      "MAX_RSS_BYTES < sum_list (map length (take (Suc n) (body example_big)))"
      "snd (deliver example_world example_big receiver0 (body example_big)) = drop (Suc n) (body example_big)"
    by blast
  have "n = 1"
    using n(1,2,3) by (cases n; cases "n - 1"; cases "n - 2") (auto simp: b MAX_RSS_BYTES_def)
  then have rest: "snd (deliver example_world example_big receiver0 (body example_big)) = [''c'']"
    using n(4) by (simp add: b)
  have "fetchRss example_world ''http://93.184.216.34/big'' 0 = Inl TooLarge"
    using big over by blast
  moreover have "fetchRss example_world ''http://93.184.216.34/4'' 0 =
      decode_body example_world (content_encoding example_feed) (concat (body example_feed))"
    using feed within by blast
  moreover have "decode_body example_world (content_encoding example_feed) (concat (body example_feed)) =
      Inr ''<rss></rss>''"
    by (simp add: decode_body_def example_feed_def example_world_def)
  ultimately show ?thesis
    using s over within rest by simp
qed

text \<open>
  C4. A chain of \<open>n\<close> redirects, each leading to the next URL after the checks of the
  guard, that ends at a URL whose answer is not a redirect: with \<open>n\<close> up to the budget
  of 3 the fetch gives what the fetch of the final URL gives, with \<open>n\<close> above it the
  too-many-redirects error. The target of a redirect is validated again: when the guard
  refuses it, the fetch fails with the guard's error.
\<close>

theorem redirect_budget:
  assumes "length urls = Suc n"
      and "\<forall>i < n. redirect_of w (urls ! i) = Some (urls ! Suc i)"
      and "\<not> answers_redirect w (urls ! n)"
  shows "fetchRss w (urls ! 0) 0 =
           (if n \<le> 3 then fetchRss w (urls ! n) 0 else Inl TooManyRedirects) \<and>
         (\<forall>p err. 0 < n \<and> new_URL w (urls ! 1) = Some p \<and> ensurePublicUrl p = Inl err \<longrightarrow>
            fetchRss w (urls ! 0) 0 = Inl err)"
proof
  have "fetchRss w (urls ! n) (0 + n) = fetchRss w (urls ! n) 0"
    using assms(3) by (rule fetchRss_no_redirect)
  then show "fetchRss w (urls ! 0) 0 =
           (if n \<le> 3 then fetchRss w (urls ! n) 0 else Inl TooManyRedirects)"
    using fetchRss_chain [OF assms(1,2), of 0] by (simp add: MAX_REDIRECTS_def)
next
  show "\<forall>p err. 0 < n \<and> new_URL w (urls ! 1) = Some p \<and> ensurePublicUrl p = Inl err \<longrightarrow>
            fetchRss w (urls ! 0) 0 = Inl err"
  proof (intro allI impI)
    fix p err
    assume h: "0 < n \<and> new_URL w (urls ! 1) = Some p \<and> ensurePublicUrl p = Inl err"
    then have "redirect_of w (urls ! 0) = Some (urls ! 1)"
      using assms(2) by auto
    then show "fetchRss w (urls ! 0) 0 = Inl err"
      using h by (intro fetchRss_revalidates [where target = "urls ! 1" and p = p]) auto
  qed
qed


theorem redirect_budget_witness:
  "fetchRss example_world ''http://93.184.216.34/1'' 0 = Inr ''<rss></rss>'' \<and>
   fetchRss example_world ''http://93.184.216.34/0'' 0 = Inl TooManyRedirects \<and>
   fetchRss example_world ''http://93.184.216.34/internal'' 0 = Inl PrivateAddress"
proof -
  let ?u = "[''http://93.184.216.34/0'', ''http://93.184.216.34/1'', ''http://93.184.216.34/2'',
             ''http://93.184.216.34/3'', ''http://93.184.216.34/4'']"
  have nr: "\<not> answers_redirect example_world ''http://93.184.216.34/4''"
    by (simp add: answers_redirect_def example_final is_redirect_def example_feed_def)
  have c4: "\<forall>i < 4. redirect_of example_world (?u ! i) = Some (?u ! Suc i)"
    using example_redirects by (simp add: less_Suc_eq numeral_nat)
  have c3: "\<forall>i < 3. redirect_of example_world (tl ?u ! i) = Some (tl ?u ! Suc i)"
    using example_redirects by (simp add: less_Suc_eq numeral_nat)
  have "fetchRss example_world (?u ! 0) 0 = Inl TooManyRedirects"
    using redirect_budget [of ?u 4 example_world] c4 nr by simp
  moreover have "fetchRss example_world (tl ?u ! 0) 0 = fetchRss example_world (tl ?u ! 3) 0"
    using redirect_budget [of "tl ?u" 3 example_world] c3 nr by simp
  moreover have "fetchRss example_world ''http://93.184.216.34/internal'' 0 = Inl PrivateAddress"
  proof -
    let ?v = "[''http://93.184.216.34/internal'', ''http://127.0.0.1/admin'']"
    have na: "\<not> answers_redirect example_world (?v ! 1)"
      using example_internal(2,3) by (simp add: answers_redirect_def send_request_def)
    have c1: "\<forall>i < 1. redirect_of example_world (?v ! i) = Some (?v ! Suc i)"
      using example_internal(1) by simp
    have len: "length ?v = Suc 1"
      by simp
    from redirect_budget [OF len c1 na]
    have "0 < (1::nat) \<and>
          new_URL example_world (?v ! 1) =
            Some \<lparr>protocol = ''http:'', hostname = ''127.0.0.1'', href = ''http://127.0.0.1/admin''\<rparr> \<and>
          ensurePublicUrl
            \<lparr>protocol = ''http:'', hostname = ''127.0.0.1'', href = ''http://127.0.0.1/admin''\<rparr> =
            Inl PrivateAddress \<longrightarrow>
          fetchRss example_world (?v ! 0) 0 = Inl PrivateAddress"
      by blast
    then show ?thesis
      using example_internal(2,3) by simp
  qed
  ultimately show ?thesis
    by (simp add: example_fetch_feed)
qed


section \<open>Pages of episodes\<close>








section \<open>Episode identifiers\<close>

lemma js_or_chain:
  "js_or a (js_or b (js_or c (js_or d (js_or e (js_or e f))))) = first_candidate [a, b, c, d, e] f"
  by (simp add: js_or_def first_candidate_def)

lemma get_first: "get (JObj ((k, v) # kvs)) k = v"
  by (simp add: get_def)

lemma buildEpisodeId_source:
  "buildEpisodeId sha
     (JObj [(''guid'', g), (''id'', i), (''uid'', u), (''audio'', a), (''url'', k), (''link'', k),
            (''title'', t), (''publishedAt'', p)]) =
   sha (jsString (first_candidate [g, i, u, a, k]
     (JStr (jsString (js_or t (JStr [])) @ ''-'' @ jsString (js_or p (JStr [])) @ ''-'' @
            jsString (js_or a (JStr []))))))"
proof -
  let ?e = "JObj [(''guid'', g), (''id'', i), (''uid'', u), (''audio'', a), (''url'', k), (''link'', k),
            (''title'', t), (''publishedAt'', p)]"
  have f: "get ?e ''guid'' = g" "get ?e ''id'' = i" "get ?e ''uid'' = u" "get ?e ''audio'' = a"
    "get ?e ''url'' = k" "get ?e ''link'' = k" "get ?e ''title'' = t" "get ?e ''publishedAt'' = p"
    by (simp_all add: get_def)
  show ?thesis
    unfolding buildEpisodeId_def Let_def f js_or_chain ..
qed

text \<open>
  The identifier of the episode built from an item is the digest of the first candidate
  that is not empty, in the order \<open>guid\<close>, \<open>id\<close>, \<open>uid\<close>, audio URL, link, and of the
  composite text when all are empty. It depends on nothing but the item, its position in
  the feed and the libraries: not on the page that delivers it, nor on the channel.
\<close>

lemma episode_id_of_item:
  "get (episode_of l channel start index item) ''id'' =
     JStr (sha256_hex l (jsString (first_candidate
       [identifier_text (he_decode l) (get item ''guid''),
        identifier_text (he_decode l) (get item ''id''),
        identifier_text (he_decode l) (get item ''uid''),
        audio_url item,
        episode_link (he_decode l) item]
       (JStr (composite l (start + int index) item)))))"
  unfolding episode_of_def Let_def get_first buildEpisodeId_source
    identifier_text_def audio_url_def episode_link_def composite_def ..

lemma episode_id_position:
  assumes "start + int index = start' + int index'"
  shows "get (episode_of l channel start index item) ''id'' =
         get (episode_of l channel' start' index' item) ''id''"
  using assms by (simp add: episode_id_of_item)

text \<open>
  A \<open>guid\<close> that the parser delivers as a text is the first candidate: the identifier is
  the digest of the text, decoded and trimmed, whatever else the item holds.
\<close>

lemma episode_id_textual_guid:
  assumes "get item ''guid'' = JStr g" "g \<noteq> []" "trim (he_decode l g) \<noteq> []"
  shows "get (episode_of l channel start index item) ''id'' =
           JStr (sha256_hex l (trim (he_decode l g)))"
  using assms
  by (simp add: episode_id_of_item first_candidate_def identifier_text_def js_or_def decodeHtml_def)

text \<open>
  C6. The identifier is claimed to be the digest of the item's \<open>guid\<close> whenever the item
  has one. The parser delivers a \<open>guid\<close> made of digits as a number, alone
  (\<open><guid>12345</guid>\<close>) or as the text of an element with attributes
  (\<open><guid isPermaLink="false">12345</guid>\<close>). The callback takes the text of a \<open>guid\<close>
  only from a string, so such a \<open>guid\<close> is passed over and the identifier is the digest
  of the audio URL: two items that differ in their \<open>guid\<close> only get the same identifier.
\<close>

theorem episode_id_passes_over_numeric_guid:
  "get (episode_of l channel start index (example_numbered (JNum 12345))) ''id'' =
     JStr (sha256_hex l ''http://example.org/a.mp3'') \<and>
   get (episode_of l channel start index (example_numbered (JNum 12346))) ''id'' =
     JStr (sha256_hex l ''http://example.org/a.mp3'') \<and>
   get (episode_of l channel start index
          (example_numbered (JObj [(''#text'', JNum 12345), (''@_isPermaLink'', JStr ''false'')])))
       ''id'' =
     JStr (sha256_hex l ''http://example.org/a.mp3'')"
  unfolding episode_id_of_item
  by (simp add: first_candidate_def identifier_text_def audio_url_def example_numbered_def
      trimmed_string_def toEnclosure_def is_string_def js_or_def get_def Let_def)

text \<open>
  The same through \<open>extractEpisodesPage\<close>, on the tree of a feed with this one item.
\<close>

lemma extract_numeric_guid:
  "map (\<lambda>e. get e ''id'') (episodes (extractEpisodesPage l example_numbered_tree 0 10)) =
     [JStr (sha256_hex l ''http://example.org/a.mp3'')]"
proof -
  have i: "ensureArray (get (getChannelInfo example_numbered_tree) ''item'') =
      [example_numbered (JNum 12345)]"
    by (simp add: example_numbered_tree_def getChannelInfo_def get_def js_or_def
        ensureArray_def example_numbered_def)
  have s: "js_slice [example_numbered (JNum 12345)] 0 (0 + 10) = [example_numbered (JNum 12345)]"
    by (simp add: js_slice_def Let_def)
  have e: "get (episode_of l channel 0 0 (example_numbered (JNum 12345))) ''id'' =
      JStr (sha256_hex l ''http://example.org/a.mp3'')" for channel
    unfolding episode_id_of_item
    by (simp add: first_candidate_def identifier_text_def audio_url_def example_numbered_def
      trimmed_string_def toEnclosure_def is_string_def js_or_def get_def Let_def)
  show ?thesis
    unfolding extractEpisodesPage_def Let_def i s by (simp add: e)
qed

section \<open>Pagination of the episodes route\<close>

text \<open>
  On a channel that is a text the website is the method \<open>link\<close> of the string, so the
  podcast counts as having information and the answer may be cached.
\<close>

lemma text_channel_website:
  "get (extractPodcastInfo l (JObj [(''rss'', JObj [(''channel'', JStr ''x'')])]) url) ''website'' =
     JFunction"
  "hasPodcastInfo (extractPodcastInfo l (JObj [(''rss'', JObj [(''channel'', JStr ''x'')])]) url)"
  by (simp_all add: extractPodcastInfo_def hasPodcastInfo_def getChannelInfo_def js_or_def get_def
      Let_def)











section \<open>The timestamp highlighter\<close>
















































































text \<open>
  Outside the well-nested documents the scanner's depth and the nesting of the elements
  part: an opening tag that is never closed stays on the stack, the closing tag of the
  marker takes it off in place of the marker, and the text behind the marker is left
  as it is.
\<close>

lemma highlight_unclosed_tag:
  "highlightTimestampsInHtml
     (''<span class='' @ DQ @ ''timestamp'' @ DQ @ ''><img src=x>1:23</span> later 4:56'') =
   ''<span class='' @ DQ @ ''timestamp'' @ DQ @ ''><img src=x>1:23</span> later 4:56''"
  by code_simp





end
